theory Spec2Isabelle
  imports Complex_Main "HOL-Library.AList" "HOL-Library.Log_Nat"
begin

section \<open>JavaScript values used by index.js\<close>

text \<open>
  A JavaScript Number is a binary64 value; it is modelled as a rational or one of the
  three special values. \<open>num_add\<close>, \<open>num_mul\<close> and \<open>num_div\<close> give the exact result
  of an operation, with \<open>NaN\<close> propagation, division by zero and the infinities;
  \<open>round_num\<close> rounds an exact result to the nearest binary64 value, and
  \<open>double_mul\<close> and \<open>double_div\<close> are the operations with that rounding. The bar
  chart and the unit conversions are modelled with the rounded operations: the cells
  of the bar and the digits printed depend on the rounding. The sums, the percentage
  and the pace are modelled with the exact operations. The sign of zero is not
  modelled (every zero is \<open>+0\<close>).
\<close>

datatype number = Fin rat | NaN | PosInf | NegInf

text \<open>The exceptions the program can raise, as values.\<close>

datatype error =
    ConfigError      \<comment> \<open>"No Strava refresh token available. ..."\<close>
  | RefreshError     \<comment> \<open>"Failed to refresh Strava tokens: ..."\<close>
  | FetchError       \<comment> \<open>a rejected \<open>fetch\<close> or \<open>json()\<close>\<close>
  | GistGetError     \<comment> \<open>\<open>octokit.gists.get\<close> rejected\<close>
  | GistUpdateError  \<comment> \<open>\<open>octokit.gists.update\<close> rejected\<close>
  | RangeError       \<comment> \<open>a negative or infinite \<open>repeat\<close> count, or a string that is too long\<close>

fun is_nan :: "number \<Rightarrow> bool" where
  "is_nan NaN = True"
| "is_nan _ = False"

fun is_zero :: "number \<Rightarrow> bool" where
  "is_zero (Fin a) = (a = 0)"
| "is_zero _ = False"

fun is_neg :: "number \<Rightarrow> bool" where
  "is_neg (Fin a) = (a < 0)"
| "is_neg NegInf = True"
| "is_neg _ = False"

fun is_fin :: "number \<Rightarrow> bool" where
  "is_fin (Fin a) = True"
| "is_fin _ = False"

definition inf_of_sign :: "bool \<Rightarrow> number" where
  "inf_of_sign negative = (if negative then NegInf else PosInf)"

definition trunc :: "rat \<Rightarrow> int" where
  "trunc q = (if 0 \<le> q then \<lfloor>q\<rfloor> else \<lceil>q\<rceil>)"

text \<open>\<open>x + y\<close> on Numbers.\<close>

fun num_add :: "number \<Rightarrow> number \<Rightarrow> number" where
  "num_add (Fin a) (Fin b) = Fin (a + b)"
| "num_add NaN _ = NaN"
| "num_add _ NaN = NaN"
| "num_add PosInf NegInf = NaN"
| "num_add NegInf PosInf = NaN"
| "num_add PosInf _ = PosInf"
| "num_add NegInf _ = NegInf"
| "num_add _ PosInf = PosInf"
| "num_add _ NegInf = NegInf"

text \<open>\<open>x * y\<close> on Numbers.\<close>

fun num_mul :: "number \<Rightarrow> number \<Rightarrow> number" where
  "num_mul (Fin a) (Fin b) = Fin (a * b)"
| "num_mul x y =
     (if is_nan x \<or> is_nan y \<or> is_zero x \<or> is_zero y then NaN
      else inf_of_sign (is_neg x \<noteq> is_neg y))"

text \<open>\<open>x / y\<close> on Numbers: a zero divisor gives \<open>NaN\<close> or an infinity, never an exception.\<close>

fun num_div :: "number \<Rightarrow> number \<Rightarrow> number" where
  "num_div (Fin a) (Fin b) =
     (if b \<noteq> 0 then Fin (a / b) else if a = 0 then NaN else inf_of_sign (a < 0))"
| "num_div (Fin a) PosInf = Fin 0"
| "num_div (Fin a) NegInf = Fin 0"
| "num_div x y =
     (if is_nan x \<or> is_nan y \<or> \<not> is_fin y then NaN
      else inf_of_sign (is_neg x \<noteq> is_neg y))"

text \<open>\<open>Math.floor\<close>.\<close>

fun num_floor :: "number \<Rightarrow> number" where
  "num_floor (Fin a) = Fin (of_int \<lfloor>a\<rfloor>)"
| "num_floor x = x"

text \<open>\<open>x % y\<close>: the remainder takes the sign of the dividend.\<close>

fun num_rem :: "number \<Rightarrow> number \<Rightarrow> number" where
  "num_rem (Fin a) (Fin b) = (if b = 0 then NaN else Fin (a - b * of_int (trunc (a / b))))"
| "num_rem (Fin a) PosInf = Fin a"
| "num_rem (Fin a) NegInf = Fin a"
| "num_rem _ _ = NaN"

text \<open>\<open>x >= y\<close>: false as soon as one side is \<open>NaN\<close>.\<close>

fun num_ge :: "number \<Rightarrow> number \<Rightarrow> bool" where
  "num_ge (Fin a) (Fin b) = (b \<le> a)"
| "num_ge NaN _ = False"
| "num_ge _ NaN = False"
| "num_ge PosInf _ = True"
| "num_ge _ NegInf = True"
| "num_ge _ _ = False"

text \<open>Truthiness of a Number: \<open>0\<close> and \<open>NaN\<close> are falsy.\<close>

fun truthy :: "number \<Rightarrow> bool" where
  "truthy (Fin a) = (a \<noteq> 0)"
| "truthy NaN = False"
| "truthy _ = True"

subsection \<open>Rounding to binary64\<close>

text \<open>
  The result of an arithmetic operation is the binary64 value nearest to the exact
  result, the one with an even significand on a tie. \<open>binade x\<close> is the exponent \<open>e\<close>
  with \<open>2^e \<le> x < 2^(e+1)\<close>; \<open>ulp x\<close> is the spacing of the binary64 values around
  \<open>x\<close> (53 significant bits, exponents from \<open>-1022\<close>, subnormal values below);
  \<open>dbl x\<close> is the nearest multiple of \<open>ulp x\<close>, and \<open>to_double\<close> turns a result of
  magnitude \<open>2^1024\<close> or more into an infinity.
\<close>

definition binade :: "rat \<Rightarrow> int" where
  "binade x =
     (case quotient_of x of
        (p, q) \<Rightarrow> let g = bitlen p - bitlen q in if 2 powi g \<le> x then g else g - 1)"

definition rne :: "rat \<Rightarrow> int" where
  "rne m =
     (let f = \<lfloor>m\<rfloor>; r = m - of_int f
      in if r < 1 / 2 then f else if 1 / 2 < r then f + 1 else if even f then f else f + 1)"

definition ulp :: "rat \<Rightarrow> rat" where
  "ulp x = 2 powi (max (binade \<bar>x\<bar>) (- 1022) - 52)"

definition dbl :: "rat \<Rightarrow> rat" where
  "dbl x = (if x = 0 then 0 else sgn x * of_int (rne (\<bar>x\<bar> / ulp x)) * ulp x)"

definition to_double :: "rat \<Rightarrow> number" where
  "to_double x = (let y = dbl x in if 2 ^ 1024 \<le> \<bar>y\<bar> then inf_of_sign (y < 0) else Fin y)"

fun round_num :: "number \<Rightarrow> number" where
  "round_num (Fin a) = to_double a"
| "round_num x = x"

text \<open>\<open>x * y\<close> and \<open>x / y\<close> as the program computes them.\<close>

definition double_mul :: "number \<Rightarrow> number \<Rightarrow> number" where
  "double_mul x y = round_num (num_mul x y)"

definition double_div :: "number \<Rightarrow> number \<Rightarrow> number" where
  "double_div x y = round_num (num_div x y)"

subsection \<open>String operations of the runtime\<close>

text \<open>
  A JavaScript string is a sequence of UTF-16 code units. The nine bar symbols of
  \<open>generateBarChart\<close> are one code unit each and lie outside ASCII, so a code unit is
  either a character or \<open>Block k\<close>, the symbol at index \<open>k\<close> of \<open>syms\<close>:
  \<open>Block 0\<close> is the empty cell, \<open>Block 1\<close> to \<open>Block 7\<close> the eighths and
  \<open>Block 8\<close> the full cell.
\<close>

datatype unit16 = Ch char | Block nat

type_synonym jstring = "unit16 list"

definition str :: "string \<Rightarrow> jstring" where
  "str s = map Ch s"

fun toIntegerOrInfinity :: "number \<Rightarrow> number" where
  "toIntegerOrInfinity NaN = Fin 0"
| "toIntegerOrInfinity (Fin a) = Fin (of_int (trunc a))"
| "toIntegerOrInfinity x = x"

text \<open>An index argument of \<open>substring\<close>, clamped to the string.\<close>

definition clamp_index :: "nat \<Rightarrow> number \<Rightarrow> nat" where
  "clamp_index len x =
     (case toIntegerOrInfinity x of
        Fin a \<Rightarrow> min (nat \<lfloor>a\<rfloor>) len
      | PosInf \<Rightarrow> len
      | _ \<Rightarrow> 0)"

definition substring :: "'a list \<Rightarrow> number \<Rightarrow> number \<Rightarrow> 'a list" where
  "substring s start end =
     (let a = clamp_index (length s) start;
          b = clamp_index (length s) end
      in take (max a b - min a b) (drop (min a b) s))"

text \<open>
  The longest string of the runtime, in code units: \<open>2^29 - 24\<close> in the V8 of
  Node.js 16, the version the workflow installs. An operation whose result would be
  longer raises RangeError (\<open>Invalid string length\<close>).
\<close>

definition maxStringLength :: int where
  "maxStringLength = 2 ^ 29 - 24"

text \<open>
  \<open>s.repeat(count)\<close> raises RangeError on a negative or infinite count, and when the
  result would be too long.
\<close>

definition repeat :: "'a list \<Rightarrow> number \<Rightarrow> error + 'a list" where
  "repeat s count =
     (case toIntegerOrInfinity count of
        Fin n \<Rightarrow>
          if n < 0 \<or> maxStringLength < int (length s) * \<lfloor>n\<rfloor> then Inl RangeError
          else Inr (concat (replicate (nat \<lfloor>n\<rfloor>) s))
      | _ \<Rightarrow> Inl RangeError)"

text \<open>
  \<open>padEnd\<close> and \<open>padStart\<close> for a target length within \<open>maxStringLength\<close>. The
  program passes the constants 2, 7, 10 and 13, and the width of the bar, which
  \<open>generateBarChart\<close> checks.
\<close>

definition padding :: "nat \<Rightarrow> 'a list \<Rightarrow> 'a list" where
  "padding n fill = take n (concat (replicate n fill))"

definition padEnd :: "'a list \<Rightarrow> nat \<Rightarrow> 'a list \<Rightarrow> 'a list" where
  "padEnd s n fill = (if n \<le> length s \<or> fill = [] then s else s @ padding (n - length s) fill)"

definition padStart :: "'a list \<Rightarrow> nat \<Rightarrow> 'a list \<Rightarrow> 'a list" where
  "padStart s n fill = (if n \<le> length s \<or> fill = [] then s else padding (n - length s) fill @ s)"

section \<open>The bar chart\<close>

definition syms :: jstring where
  "syms = map Block [0..<9]"

text \<open>
  \<open>generateBarChart(percent, size)\<close>. The width is a natural number (the program
  passes 19); the percentage is any Number, since it is the quotient of two payload
  values. \<open>size * 8 * percent\<close> is two products, each rounded, and so are the
  quotients by 100 and by 8; \<open>frac % 8\<close> is exact in binary64, and so is \<open>semi + 1\<close>,
  \<open>semi\<close> being an integer below 8 or \<open>NaN\<close>. Padding to a width above
  \<open>maxStringLength\<close> raises RangeError.
\<close>

definition generateBarChart :: "number \<Rightarrow> nat \<Rightarrow> error + jstring" where
  "generateBarChart percent sz =
     (let frac = num_floor (double_div (double_mul (double_mul (Fin (of_nat sz)) (Fin 8)) percent)
                              (Fin 100));
          barsFull = num_floor (double_div frac (Fin 8))
      in if num_ge barsFull (Fin (of_nat sz))
         then repeat (substring syms (Fin 8) (Fin 9)) (Fin (of_nat sz))
         else
           let semi = num_rem frac (Fin 8) in
           case repeat (substring syms (Fin 8) (Fin 9)) barsFull of
             Inl e \<Rightarrow> Inl e
           | Inr full \<Rightarrow>
               if maxStringLength < int sz then Inl RangeError
               else Inr (padEnd (full @ substring syms semi (num_add semi (Fin 1))) sz
                           (substring syms (Fin 0) (Fin 1))))"

section \<open>Rendering numbers\<close>

definition digit_char :: "int \<Rightarrow> char" where
  "digit_char d = ''0123456789'' ! nat d"

text \<open>The decimal digits of a non-negative integer, most significant first.\<close>

function digits :: "int \<Rightarrow> string" where
  "digits n = (if n < 10 then [digit_char n] else digits (n div 10) @ [digit_char (n mod 10)])"
  by pat_completeness auto
termination
  by (relation "measure nat") auto

declare digits.simps [simp del]

text \<open>\<open>strip10 m e\<close> removes the trailing decimal zeros of \<open>m\<close> and counts them.\<close>

function strip10 :: "int \<Rightarrow> int \<Rightarrow> int \<times> int" where
  "strip10 m e = (if 0 < m \<and> m mod 10 = 0 then strip10 (m div 10) (e + 1) else (m, e))"
  by pat_completeness auto
termination
  by (relation "measure (\<lambda>p. nat (fst p))") auto

declare strip10.simps [simp del]

text \<open>Exponent notation for the integer \<open>m * 10 ^ e\<close>: \<open>d.ddde+N\<close>.\<close>

definition exponential :: "int \<Rightarrow> int \<Rightarrow> string" where
  "exponential m e =
     (let ds = digits m
      in (if length ds = 1 then ds else take 1 ds @ ''.'' @ drop 1 ds) @
         ''e+'' @ digits (int (length ds) + e - 1))"

text \<open>
  What the runtime itself contributes and the model does not compute: the text of a
  Number whose shortest round-trip digits depend on its binary representation, the
  locale's date format, the clock, and the local time zone. \<open>localTZA t isUTC\<close> is
  the offset of local time from UTC in milliseconds, at the UTC time value \<open>t\<close> when
  \<open>isUTC\<close> holds and at the local time value \<open>t\<close> otherwise, as in ECMAScript.
\<close>

record runtime =
  numberText :: "rat \<Rightarrow> string"
  localeDate :: "int option \<Rightarrow> string"
  clock :: int
  localTZA :: "int \<Rightarrow> bool \<Rightarrow> int"

text \<open>
  \<open>Number::toString\<close> of a non-negative finite value. An integer below \<open>2^53\<close>, or
  one with at most 15 significant digits, is printed with exactly its digits: in full
  below \<open>10^21\<close>, in exponent notation from there on. Every other value is left to
  \<open>numberText\<close>.
\<close>

definition posToString :: "runtime \<Rightarrow> rat \<Rightarrow> string" where
  "posToString rt q =
     (let k = \<lfloor>q\<rfloor>;
          me = strip10 k 0
      in if of_int k = q \<and> (k < 2 ^ 53 \<or> fst me < 10 ^ 15)
         then (if k < 10 ^ 21 then digits k else exponential (fst me) (snd me))
         else numberText rt q)"

definition numberToString :: "runtime \<Rightarrow> number \<Rightarrow> string" where
  "numberToString rt x =
     (case x of
        NaN \<Rightarrow> ''NaN''
      | PosInf \<Rightarrow> ''Infinity''
      | NegInf \<Rightarrow> ''-Infinity''
      | Fin q \<Rightarrow> if q < 0 then ''-'' @ posToString rt (- q) else posToString rt q)"

text \<open>
  \<open>x.toFixed(2)\<close>: the sign, then the integer nearest to \<open>|x| * 100\<close> (the larger one
  on a tie) with a point before its last two digits. From \<open>10^21\<close> on, and for a value
  that is not finite, the result is \<open>Number::toString\<close>.
\<close>

definition toFixed2 :: "runtime \<Rightarrow> number \<Rightarrow> string" where
  "toFixed2 rt x =
     (case x of
        Fin q \<Rightarrow>
          (let s = (if q < 0 then ''-'' else []);
               a = \<bar>q\<bar>
           in if 10 ^ 21 \<le> a then s @ posToString rt a
              else
                let n = \<lfloor>a * 100 + 1 / 2\<rfloor>
                in s @ digits (n div 100) @ ''.'' @
                   [digit_char (n mod 100 div 10), digit_char (n mod 10)])
      | _ \<Rightarrow> numberToString rt x)"

section \<open>Unit conversion and the formatting helpers\<close>

text \<open>
  \<open>units\<close> is \<open>process.env.UNITS\<close>: \<open>None\<close> when the variable is unset. The helpers
  use their arguments in arithmetic and in truthiness tests only, where \<open>undefined\<close>
  behaves as \<open>NaN\<close>; they take Numbers, and a caller converts with \<open>toNumber\<close>.
  A conversion constant is the binary64 value nearest to its decimal literal, and the
  product is rounded before \<open>toFixed\<close> reads it.
\<close>

definition metersToMiles :: "runtime \<Rightarrow> number \<Rightarrow> string" where
  "metersToMiles rt meters =
     toFixed2 rt (double_mul meters (to_double (621371192 / 10 ^ 12)))"

definition metersToKm :: "runtime \<Rightarrow> number \<Rightarrow> string" where
  "metersToKm rt meters = toFixed2 rt (double_mul meters (to_double (1 / 1000)))"

definition formatDistance :: "runtime \<Rightarrow> string option \<Rightarrow> number \<Rightarrow> string" where
  "formatDistance rt units distance =
     (if units = Some ''meters'' then metersToKm rt distance @ '' km''
      else if units = Some ''miles'' then metersToMiles rt distance @ '' mi''
      else metersToKm rt distance @ '' km'')"

definition formatDuration :: "runtime \<Rightarrow> number \<Rightarrow> string" where
  "formatDuration rt seconds =
     (let hours = num_floor (num_div seconds (Fin 3600));
          minutes = num_floor (num_div (num_rem seconds (Fin 3600)) (Fin 60))
      in numberToString rt hours @ '':'' @ padStart (numberToString rt minutes) 2 ''0'')"

definition calculatePace :: "runtime \<Rightarrow> string option \<Rightarrow> number \<Rightarrow> number \<Rightarrow> string" where
  "calculatePace rt units distance seconds =
     (if \<not> truthy distance \<or> \<not> truthy seconds then ''0:00/km''
      else
        let distanceInKm =
              (if units = Some ''miles'' then num_div distance (Fin (160934 / 100))
               else num_div distance (Fin 1000));
            paceSeconds = num_div seconds distanceInKm;
            paceMinutes = num_floor (num_div paceSeconds (Fin 60));
            paceRemainingSeconds = num_floor (num_rem paceSeconds (Fin 60));
            unit = (if units = Some ''miles'' then ''mi'' else ''km'')
        in numberToString rt paceMinutes @ '':'' @
           padStart (numberToString rt paceRemainingSeconds) 2 ''0'' @ ''/'' @ unit)"

section \<open>The payloads\<close>

text \<open>
  A property read gives a Number or \<open>undefined\<close> (the property is absent). Values of
  other JavaScript types in these positions are outside the model.
\<close>

datatype jsval = Undefined | Num number

fun toNumber :: "jsval \<Rightarrow> number" where
  "toNumber Undefined = NaN"
| "toNumber (Num x) = x"

fun truthy_val :: "jsval \<Rightarrow> bool" where
  "truthy_val Undefined = False"
| "truthy_val (Num x) = truthy x"

text \<open>
  An activity-totals object of the stats payload, and an activity of the activity list.
  \<open>start_date\<close> is the time value of \<open>new Date(activity.start_date)\<close> in milliseconds,
  \<open>None\<close> for an invalid date.
\<close>

record measures =
  distance :: jsval
  moving_time :: jsval

record totals = measures +
  achievement_count :: jsval

record activity = measures +
  name :: string
  start_date :: "int option"

text \<open>
  The stats payload: its own properties in order, each an activity-totals object.
  \<open>data[key]\<close> is \<open>map_of data key\<close>, \<open>None\<close> when the payload has no such key.
\<close>

type_synonym stats = "(string \<times> totals) list"

section \<open>The report\<close>

subsection \<open>Per-discipline summary\<close>

definition keyMappings :: "(string \<times> string) list" where
  "keyMappings =
     [(''Running'', ''ytd_run_totals''),
      (''Swimming'', ''ytd_swim_totals''),
      (''Cycling'', ''ytd_ride_totals'')]"

record entry =
  entry_name :: string
  entry_pace :: number
  entry_distance :: jsval

text \<open>
  The body of the first \<open>map\<close>, with \<open>totalDistance\<close> passed through. Destructuring
  \<open>data[key]\<close> throws when the key is missing, before \<open>totalDistance\<close> is touched; the
  \<open>catch\<close> branch returns the zero entry.
\<close>

definition extractEntry :: "stats \<Rightarrow> number \<Rightarrow> string \<times> string \<Rightarrow> entry \<times> number" where
  "extractEntry data totalDistance m =
     (case map_of data (snd m) of
        None \<Rightarrow>
          (\<lparr>entry_name = fst m, entry_pace = Fin 0, entry_distance = Num (Fin 0)\<rparr>,
           totalDistance)
      | Some t \<Rightarrow>
          (\<lparr>entry_name = fst m,
            entry_pace =
              num_div (num_mul (toNumber (distance t)) (Fin 3600))
                (if truthy_val (moving_time t) then toNumber (moving_time t) else Fin 1),
            entry_distance = distance t\<rparr>,
           num_add totalDistance (toNumber (distance t))))"

fun extractAll :: "stats \<Rightarrow> number \<Rightarrow> (string \<times> string) list \<Rightarrow> entry list \<times> number" where
  "extractAll data totalDistance [] = ([], totalDistance)"
| "extractAll data totalDistance (m # ms) =
     (let (e, total1) = extractEntry data totalDistance m;
          (es, total2) = extractAll data total1 ms
      in (e # es, total2))"

text \<open>
  The second and third \<open>map\<close>: percentage, texts and bar chart of one entry, then its
  line. Only \<open>generateBarChart\<close> can throw.
\<close>

definition formatEntry :: "runtime \<Rightarrow> string option \<Rightarrow> number \<Rightarrow> entry \<Rightarrow> error + jstring" where
  "formatEntry rt units totalDistance e =
     (let percent = num_mul (num_div (toNumber (entry_distance e)) totalDistance) (Fin 100);
          pacePH = formatDistance rt units (entry_pace e);
          pace = substring pacePH (Fin 0) (Fin (of_int (int (length pacePH) - 3)));
          distanceText = formatDistance rt units (toNumber (entry_distance e))
      in case generateBarChart percent 19 of
           Inl err \<Rightarrow> Inl err
         | Inr barChart \<Rightarrow>
             Inr (str (padEnd (entry_name e) 10 '' '') @ str '' '' @
                  str (padStart distanceText 13 '' '') @ str '' '' @
                  barChart @ str '' '' @
                  str (padStart (pace @ ''/h'') 7 '' '')))"

fun formatEntries :: "runtime \<Rightarrow> string option \<Rightarrow> number \<Rightarrow> entry list \<Rightarrow> error + jstring list" where
  "formatEntries rt units totalDistance [] = Inr []"
| "formatEntries rt units totalDistance (e # es) =
     (case formatEntry rt units totalDistance e of
        Inl err \<Rightarrow> Inl err
      | Inr line \<Rightarrow>
          (case formatEntries rt units totalDistance es of
             Inl err \<Rightarrow> Inl err
           | Inr lines \<Rightarrow> Inr (line # lines)))"

definition activityTypeLines :: "runtime \<Rightarrow> string option \<Rightarrow> stats \<Rightarrow> error + jstring list" where
  "activityTypeLines rt units data =
     (let (entries, totalDistance) = extractAll data (Fin 0) keyMappings
      in formatEntries rt units totalDistance entries)"

subsection \<open>Last activity\<close>

definition lastActivityLines :: "runtime \<Rightarrow> string option \<Rightarrow> activity list \<Rightarrow> string list" where
  "lastActivityLines rt units activities =
     (case activities of
        [] \<Rightarrow> []
      | lastActivity # _ \<Rightarrow>
          (let date = localeDate rt (start_date lastActivity);
               distanceText = formatDistance rt units (toNumber (distance lastActivity));
               duration = formatDuration rt (toNumber (moving_time lastActivity));
               pace = calculatePace rt units (toNumber (distance lastActivity))
                        (toNumber (moving_time lastActivity))
           in [''Last Activity:'',
               name lastActivity @ '' ('' @ date @ '')'',
               ''Distance: '' @ distanceText @ '', Time: '' @ duration @ '', Pace: '' @ pace]))"

subsection \<open>7-day window\<close>

text \<open>
  \<open>oneWeekAgo\<close> is \<open>new Date()\<close> moved back seven calendar days by
  \<open>setDate(getDate() - 7)\<close>: the time value is taken to local time, the day of the
  month is lowered by seven, which keeps the time of day and is \<open>7 * 86400000\<close>
  milliseconds of local time, and the result is taken back to UTC with the offset in
  force at that local time.
\<close>

definition msPerDay :: int where
  "msPerDay = 86400000"

definition oneWeekAgo :: "runtime \<Rightarrow> int" where
  "oneWeekAgo rt =
     (let now = clock rt;
          localTime = now + localTZA rt now True;
          moved = localTime - 7 * msPerDay
      in moved - localTZA rt moved False)"

record tally =
  sum_distance :: number
  sum_time :: number
  sum_count :: number

text \<open>The body of the \<open>forEach\<close>: a comparison with an invalid date is false.\<close>

definition weekStep :: "int \<Rightarrow> activity \<Rightarrow> tally \<Rightarrow> tally" where
  "weekStep weekAgo a s =
     (case start_date a of
        None \<Rightarrow> s
      | Some activityDate \<Rightarrow>
          if weekAgo \<le> activityDate
          then \<lparr>sum_distance = num_add (sum_distance s) (toNumber (distance a)),
                sum_time = num_add (sum_time s) (toNumber (moving_time a)),
                sum_count = num_add (sum_count s) (Fin 1)\<rparr>
          else s)"

definition zero_tally :: tally where
  "zero_tally = \<lparr>sum_distance = Fin 0, sum_time = Fin 0, sum_count = Fin 0\<rparr>"

definition weekStats :: "runtime \<Rightarrow> activity list \<Rightarrow> tally" where
  "weekStats rt activities = fold (weekStep (oneWeekAgo rt)) activities zero_tally"

definition weekLines :: "runtime \<Rightarrow> string option \<Rightarrow> activity list \<Rightarrow> string list" where
  "weekLines rt units activities =
     (let w = weekStats rt activities
      in [''7 Days:'',
          formatDistance rt units (sum_distance w) @ '', '' @ numberToString rt (sum_count w) @
          '' activities, '' @ formatDuration rt (sum_time w)])"

subsection \<open>Monthly block\<close>

definition startsWith :: "string \<Rightarrow> string \<Rightarrow> bool" where
  "startsWith s p = (take (length p) s = p)"

definition endsWith :: "string \<Rightarrow> string \<Rightarrow> bool" where
  "endsWith s p = (length p \<le> length s \<and> drop (length s - length p) s = p)"

text \<open>The body of the loop over \<open>Object.entries(data)\<close>; \<open>sum_count\<close> holds \<open>monthAchievements\<close>.\<close>

definition monthStep :: "string \<times> totals \<Rightarrow> tally \<Rightarrow> tally" where
  "monthStep kv s =
     (if startsWith (fst kv) ''recent_'' \<and> endsWith (fst kv) ''_totals''
      then \<lparr>sum_distance = num_add (sum_distance s) (toNumber (distance (snd kv))),
            sum_time = num_add (sum_time s) (toNumber (moving_time (snd kv))),
            sum_count = num_add (sum_count s) (toNumber (achievement_count (snd kv)))\<rparr>
      else s)"

definition monthStats :: "stats \<Rightarrow> tally" where
  "monthStats data = fold monthStep data zero_tally"

definition monthLines :: "runtime \<Rightarrow> string option \<Rightarrow> stats \<Rightarrow> string list" where
  "monthLines rt units data =
     (let m = monthStats data
      in [''Month:'',
          formatDistance rt units (sum_distance m) @ '', '' @ numberToString rt (sum_count m) @
          '' achievements, '' @ formatDuration rt (sum_time m)])"

subsection \<open>Assembly\<close>

fun join :: "'a list \<Rightarrow> 'a list list \<Rightarrow> 'a list" where
  "join sep [] = []"
| "join sep [x] = x"
| "join sep (x # y # ys) = x @ sep @ join sep (y # ys)"

text \<open>
  The formatting pass of \<open>updateGist\<close>, from \<open>keyMappings\<close> to \<open>allLines\<close>. The
  per-discipline lines are computed first, so their exception ends the pass.
\<close>

definition allLines :: "runtime \<Rightarrow> string option \<Rightarrow> stats \<Rightarrow> activity list \<Rightarrow> error + jstring list" where
  "allLines rt units data activities =
     (case activityTypeLines rt units data of
        Inl err \<Rightarrow> Inl err
      | Inr typeLines \<Rightarrow>
          Inr (map str (lastActivityLines rt units activities) @ [[]] @
               map str (weekLines rt units activities) @ [[]] @
               map str (monthLines rt units data) @ [[]] @
               typeLines))"

section \<open>The token cache\<close>

text \<open>
  The environment variables the model reads; a variable that is unset is \<open>None\<close>.
\<close>

record env =
  STRAVA_ACCESS_TOKEN :: "string option"
  STRAVA_REFRESH_TOKEN :: "string option"
  UNITS :: "string option"

text \<open>
  The \<open>cache\<close> object: its properties in order, each a string, or \<open>None\<close> for
  \<open>undefined\<close> and \<open>null\<close>. The file \<open>strava-auth.json\<close> is absent, unreadable (the read
  or \<open>JSON.parse\<close> throws), or holds such an object.
\<close>

type_synonym cache = "(string \<times> string option) list"

datatype cache_file = Absent | Unreadable | Content cache

definition cache_get :: "cache \<Rightarrow> string \<Rightarrow> string option" where
  "cache_get c key = (case map_of c key of Some (Some s) \<Rightarrow> Some s | _ \<Rightarrow> None)"

definition truthy_str :: "string option \<Rightarrow> bool" where
  "truthy_str v = (case v of Some s \<Rightarrow> s \<noteq> [] | None \<Rightarrow> False)"

text \<open>
  The first half of \<open>getStravaToken\<close>: the environment's defaults, overlaid key by key
  with the cache file when it can be read.
\<close>

definition loadCache :: "env \<Rightarrow> cache_file \<Rightarrow> cache" where
  "loadCache ev file =
     (let cache = [(''stravaAccessToken'', STRAVA_ACCESS_TOKEN ev),
                   (''stravaRefreshToken'', STRAVA_REFRESH_TOKEN ev)]
      in case file of
           Content c \<Rightarrow> fold (\<lambda>kv acc. AList.update (fst kv) (snd kv) acc) c cache
         | _ \<Rightarrow> cache)"

section \<open>The external services and the run\<close>

text \<open>
  The body of a reply of the OAuth endpoint, and the services as the run sees them. A
  request that is rejected (network failure, a body that is not JSON) answers \<open>None\<close>.
  \<open>oauth k r\<close> answers the refresh request that follows \<open>k\<close> earlier ones of this run
  and sends the refresh token \<open>r\<close>.
\<close>

record oauth_reply =
  access_token :: "string option"
  refresh_token :: "string option"

record services =
  oauth :: "nat \<Rightarrow> string \<Rightarrow> oauth_reply option"
  statsApi :: "string \<Rightarrow> stats option"
  activitiesApi :: "string \<Rightarrow> activity list option"
  gistGet :: "string list option"
  gistUpdate :: "string \<Rightarrow> jstring \<Rightarrow> bool"

text \<open>
  What a run does to the outside, in order. \<open>FormatPass\<close> marks the start of the
  formatting pass of \<open>updateGist\<close>.
\<close>

datatype event =
    RefreshCall string
  | CacheWrite cache
  | StatsRead string
  | ActivitiesRead string
  | GistRead
  | FormatPass
  | GistWrite string jstring

record world =
  cacheFile :: cache_file
  trace :: "event list"

fun is_refresh :: "event \<Rightarrow> bool" where
  "is_refresh (RefreshCall r) = True"
| "is_refresh _ = False"

fun is_cache_write :: "event \<Rightarrow> bool" where
  "is_cache_write (CacheWrite c) = True"
| "is_cache_write _ = False"

fun is_read :: "event \<Rightarrow> bool" where
  "is_read (StatsRead t) = True"
| "is_read (ActivitiesRead t) = True"
| "is_read _ = False"

fun is_format :: "event \<Rightarrow> bool" where
  "is_format FormatPass = True"
| "is_format _ = False"

fun is_write :: "event \<Rightarrow> bool" where
  "is_write (GistWrite f c) = True"
| "is_write _ = False"

definition count_events :: "(event \<Rightarrow> bool) \<Rightarrow> event list \<Rightarrow> nat" where
  "count_events P tr = length (filter P tr)"

definition emit :: "event \<Rightarrow> world \<Rightarrow> world" where
  "emit e w = w\<lparr>trace := trace w @ [e]\<rparr>"

definition getStravaToken :: "env \<Rightarrow> services \<Rightarrow> world \<Rightarrow> (error + string) \<times> world" where
  "getStravaToken ev sv w =
     (let cache = loadCache ev (cacheFile w)
      in case cache_get cache ''stravaRefreshToken'' of
           None \<Rightarrow> (Inl ConfigError, w)
         | Some refresh \<Rightarrow>
             if refresh = [] then (Inl ConfigError, w)
             else
               let w1 = emit (RefreshCall refresh) w
               in case oauth sv (count_events is_refresh (trace w)) refresh of
                    None \<Rightarrow> (Inl FetchError, w1)
                  | Some data \<Rightarrow>
                      (case (access_token data, refresh_token data) of
                         (Some token, Some rotated) \<Rightarrow>
                           if token = [] \<or> rotated = [] then (Inl RefreshError, w1)
                           else
                             let cache1 = AList.update ''stravaAccessToken'' (Some token) cache;
                                 cache2 = AList.update ''stravaRefreshToken'' (Some rotated) cache1
                             in (Inr token,
                                 emit (CacheWrite cache2) (w1\<lparr>cacheFile := Content cache2\<rparr>))
                       | _ \<Rightarrow> (Inl RefreshError, w1)))"

definition getStravaStats :: "env \<Rightarrow> services \<Rightarrow> world \<Rightarrow> (error + stats) \<times> world" where
  "getStravaStats ev sv w =
     (case getStravaToken ev sv w of
        (Inl e, w1) \<Rightarrow> (Inl e, w1)
      | (Inr token, w1) \<Rightarrow>
          (case statsApi sv token of
             None \<Rightarrow> (Inl FetchError, emit (StatsRead token) w1)
           | Some json \<Rightarrow> (Inr json, emit (StatsRead token) w1)))"

definition getRecentActivities :: "env \<Rightarrow> services \<Rightarrow> world \<Rightarrow> (error + activity list) \<times> world" where
  "getRecentActivities ev sv w =
     (case getStravaToken ev sv w of
        (Inl e, w1) \<Rightarrow> (Inl e, w1)
      | (Inr token, w1) \<Rightarrow>
          (case activitiesApi sv token of
             None \<Rightarrow> (Inl FetchError, emit (ActivitiesRead token) w1)
           | Some json \<Rightarrow> (Inr json, emit (ActivitiesRead token) w1)))"

definition newline :: unit16 where
  "newline = Ch (CHR 0x0A)"

definition updateGist ::
  "runtime \<Rightarrow> env \<Rightarrow> services \<Rightarrow> stats \<Rightarrow> activity list \<Rightarrow> world \<Rightarrow> (error + unit) \<times> world" where
  "updateGist rt ev sv data activities w =
     (case gistGet sv of
        None \<Rightarrow> (Inl GistGetError, emit GistRead w)
      | Some files \<Rightarrow>
          (case allLines rt (UNITS ev) data activities of
             Inl e \<Rightarrow> (Inl e, emit FormatPass (emit GistRead w))
           | Inr lines \<Rightarrow>
               let filename = (case files of [] \<Rightarrow> ''undefined'' | f # _ \<Rightarrow> f);
                   content = join [newline] lines;
                   w1 = emit (GistWrite filename content) (emit FormatPass (emit GistRead w))
               in if gistUpdate sv filename content then (Inr (), w1)
                  else (Inl GistUpdateError, w1)))"

definition main :: "runtime \<Rightarrow> env \<Rightarrow> services \<Rightarrow> world \<Rightarrow> (error + unit) \<times> world" where
  "main rt ev sv w =
     (case getStravaStats ev sv w of
        (Inl e, w1) \<Rightarrow> (Inl e, w1)
      | (Inr stats, w1) \<Rightarrow>
          (case getRecentActivities ev sv w1 of
             (Inl e, w2) \<Rightarrow> (Inl e, w2)
           | (Inr activities, w2) \<Rightarrow> updateGist rt ev sv stats activities w2))"

section \<open>Notions used to state the properties\<close>

text \<open>A Number that is not negative: a finite value from 0 on, or \<open>+\<infinity>\<close>.\<close>

fun nonneg :: "number \<Rightarrow> bool" where
  "nonneg (Fin a) = (0 \<le> a)"
| "nonneg PosInf = True"
| "nonneg _ = False"





text \<open>
  A runtime, an environment and payloads for the concrete instances. The runtime is in
  UTC, as the scheduled runner is, on 2 January 2026.
\<close>

definition sample_runtime :: runtime where
  "sample_runtime =
     \<lparr>numberText = (\<lambda>q. ''?''), localeDate = (\<lambda>d. ''1/2/2026''), clock = 1767312000000,
      localTZA = (\<lambda>t isUTC. 0)\<rparr>"



definition sample_totals :: "rat \<Rightarrow> rat \<Rightarrow> totals" where
  "sample_totals d t =
     \<lparr>distance = Num (Fin d), moving_time = Num (Fin t), achievement_count = Num (Fin 2)\<rparr>"

definition sample_activity :: "rat \<Rightarrow> rat \<Rightarrow> int \<Rightarrow> activity" where
  "sample_activity d t start =
     \<lparr>distance = Num (Fin d), moving_time = Num (Fin t), name = ''Run'', start_date = Some start\<rparr>"

text \<open>
  A stats payload whose Swimming totals are present but carry no fields, and the same
  payload without the Swimming key.
\<close>

definition empty_totals :: totals where
  "empty_totals = \<lparr>distance = Undefined, moving_time = Undefined, achievement_count = Undefined\<rparr>"

definition malformed_stats :: stats where
  "malformed_stats =
     [(''ytd_run_totals'', sample_totals 1000 600),
      (''ytd_swim_totals'', empty_totals),
      (''ytd_ride_totals'', sample_totals 3000 900)]"

definition missing_stats :: stats where
  "missing_stats =
     [(''ytd_run_totals'', sample_totals 1000 600),
      (''ytd_ride_totals'', sample_totals 3000 900)]"

text \<open>The entry the \<open>catch\<close> branch substitutes.\<close>

definition zero_entry :: "string \<Rightarrow> entry" where
  "zero_entry activityType =
     \<lparr>entry_name = activityType, entry_pace = Fin 0, entry_distance = Num (Fin 0)\<rparr>"

text \<open>Totals whose distance is a finite Number that is not negative.\<close>

definition plain_distance :: "totals \<Rightarrow> bool" where
  "plain_distance t = (case distance t of Num (Fin d) \<Rightarrow> 0 \<le> d | _ \<Rightarrow> False)"

text \<open>The line of a discipline with distance 0 and pace 0 under an empty bar.\<close>

definition zero_line :: "runtime \<Rightarrow> string option \<Rightarrow> string \<Rightarrow> jstring" where
  "zero_line rt units activityType =
     str (padEnd activityType 10 '' '') @ str '' '' @
     str (padStart (formatDistance rt units (Fin 0)) 13 '' '') @ str '' '' @
     replicate 19 (Block 0) @ str '' '' @
     str (padStart ''0.00/h'' 7 '' '')"

text \<open>An entry whose distance is a finite Number that is not negative.\<close>

definition plain_entry :: "entry \<Rightarrow> bool" where
  "plain_entry e = (case entry_distance e of Num (Fin d) \<Rightarrow> 0 \<le> d | _ \<Rightarrow> False)"

text \<open>
  A run in which every service answers: the OAuth endpoint rotates the tokens, the
  cache file does not exist yet, and the environment supplies the first refresh token.
\<close>

definition sample_env :: env where
  "sample_env =
     \<lparr>STRAVA_ACCESS_TOKEN = Some ''a0'', STRAVA_REFRESH_TOKEN = Some ''r0'', UNITS = None\<rparr>"

definition sample_services :: services where
  "sample_services =
     \<lparr>oauth = (\<lambda>k r. Some \<lparr>access_token = Some (''a'' @ r), refresh_token = Some (''r'' @ r)\<rparr>),
      statsApi = (\<lambda>token. Some missing_stats),
      activitiesApi = (\<lambda>token. Some [sample_activity 5000 1500 1767312000000]),
      gistGet = Some [''strava.txt''],
      gistUpdate = (\<lambda>filename content. True)\<rparr>"

definition sample_world :: world where
  "sample_world = \<lparr>cacheFile = Absent, trace = []\<rparr>"







text \<open>
  The decimal literal of the conversion constant \<open>formatDistance\<close> applies under a
  measurement system, and the Number \<open>meters * CONVERSION_CONSTANT\<close> that \<open>toFixed\<close>
  reads: the constant and the product are rounded to binary64.
\<close>

definition factor :: "string option \<Rightarrow> rat" where
  "factor units = (if units = Some ''miles'' then 621371192 / 10 ^ 12 else 1 / 1000)"




section \<open>Properties of the rounding\<close>

lemma pow2_nat: "0 \<le> k \<Longrightarrow> (2::rat) ^ nat k = 2 powi k"
  by (simp add: power_int_def)

lemma pow2_pos [simp]: "0 < (2::rat) powi k"
  by simp

lemma pow2_mono: "a \<le> b \<Longrightarrow> (2::rat) powi a \<le> 2 powi b"
  by (rule power_int_increasing) simp_all

lemma pow2_less: "(2::rat) powi a < 2 powi b \<Longrightarrow> a < b"
  using pow2_mono [of b a] by (cases "a < b") simp_all

lemma binade_bounds:
  assumes "0 < x"
  shows "2 powi binade x \<le> x \<and> x < 2 powi (binade x + 1)"
proof -
  obtain p q where pq: "quotient_of x = (p, q)"
    by (cases "quotient_of x")
  have q: "0 < q"
    using pq by (rule quotient_of_denom_pos)
  have x: "x = of_int p / of_int q"
    using pq by (rule quotient_of_div)
  have p: "0 < p"
    using assms q x by (simp add: zero_less_divide_iff)
  have bp: "1 \<le> bitlen p" and bq: "1 \<le> bitlen q"
    using p q by (simp_all add: bitlen_alt_def)
  from bitlen_bounds [OF p] have "(of_int (2 ^ nat (bitlen p - 1)) :: rat) \<le> of_int p"
    and "(of_int p :: rat) < of_int (2 ^ nat (bitlen p))"
    by (simp_all only: of_int_le_iff of_int_less_iff)
  then have p1: "2 powi (bitlen p - 1) \<le> (of_int p :: rat)" and p2: "(of_int p :: rat) < 2 powi bitlen p"
    using bp by (simp_all add: pow2_nat)
  from bitlen_bounds [OF q] have "(of_int (2 ^ nat (bitlen q - 1)) :: rat) \<le> of_int q"
    and "(of_int q :: rat) < of_int (2 ^ nat (bitlen q))"
    by (simp_all only: of_int_le_iff of_int_less_iff)
  then have q1: "2 powi (bitlen q - 1) \<le> (of_int q :: rat)" and q2: "(of_int q :: rat) < 2 powi bitlen q"
    using bq by (simp_all add: pow2_nat)
  define g where "g = bitlen p - bitlen q"
  have qpos: "0 < (of_int q :: rat)"
    using q by simp
  have "x * of_int q = of_int p"
    using x q by simp
  have up: "x < 2 powi (g + 1)"
  proof -
    have "x * (2::rat) powi (bitlen q - 1) \<le> x * of_int q"
      using q1 assms by (simp add: mult_left_mono)
    also have "\<dots> = of_int p"
      using x q by simp
    also have "\<dots> < 2 powi bitlen p"
      by (rule p2)
    also have "\<dots> = 2 powi (g + 1) * 2 powi (bitlen q - 1)"
      by (simp add: g_def power_int_add [symmetric])
    finally show ?thesis
      by simp
  qed
  have low: "2 powi (g - 1) < x"
  proof -
    have "(2::rat) powi (g - 1) * of_int q < 2 powi (g - 1) * 2 powi bitlen q"
      using q2 by simp
    also have "\<dots> = 2 powi (bitlen p - 1)"
      by (simp add: g_def power_int_add [symmetric])
    also have "\<dots> \<le> of_int p"
      by (rule p1)
    also have "\<dots> = x * of_int q"
      using x q by simp
    finally show ?thesis
      using qpos by simp
  qed
  have b: "binade x = (if 2 powi g \<le> x then g else g - 1)"
    by (simp add: binade_def pq g_def Let_def)
  show ?thesis
  proof (cases "2 powi g \<le> x")
    case True
    then show ?thesis
      using up b by simp
  next
    case False
    then show ?thesis
      using low b by simp
  qed
qed

lemma binade_unique:
  assumes "0 < x" and "2 powi e \<le> x" and "x < 2 powi (e + 1)"
  shows "binade x = e"
proof -
  from binade_bounds [OF assms(1)] have a: "2 powi binade x \<le> x" and b: "x < 2 powi (binade x + 1)"
    by simp_all
  have "(2::rat) powi binade x < 2 powi (e + 1)"
    using a assms(3) by (rule le_less_trans)
  then have "binade x < e + 1"
    by (rule pow2_less)
  moreover have "(2::rat) powi e < 2 powi (binade x + 1)"
    using assms(2) b by (rule le_less_trans)
  then have "e < binade x + 1"
    by (rule pow2_less)
  ultimately show ?thesis
    by simp
qed

lemma binade_mono:
  assumes "0 < x" and "x \<le> y"
  shows "binade x \<le> binade y"
proof -
  have y: "0 < y"
    using assms by simp
  have "(2::rat) powi binade x \<le> x"
    using binade_bounds [OF assms(1)] by simp
  also have "x \<le> y"
    by (rule assms(2))
  also have "y < 2 powi (binade y + 1)"
    using binade_bounds [OF y] by simp
  finally have "binade x < binade y + 1"
    by (rule pow2_less)
  then show ?thesis
    by simp
qed

lemma rne_of_int [simp]: "rne (of_int k) = k"
  by (simp add: rne_def)

lemma rne_bounds: "\<lfloor>m\<rfloor> \<le> rne m \<and> rne m \<le> \<lfloor>m\<rfloor> + 1"
  by (simp add: rne_def Let_def)

lemma rne_mono:
  assumes "a \<le> b"
  shows "rne a \<le> rne b"
proof (cases "\<lfloor>a\<rfloor> = \<lfloor>b\<rfloor>")
  case True
  have "a - of_int \<lfloor>b\<rfloor> \<le> b - of_int \<lfloor>b\<rfloor>"
    using assms by simp
  then have "a - of_int \<lfloor>a\<rfloor> \<le> b - of_int \<lfloor>a\<rfloor>"
    using True by simp
  then show ?thesis
    unfolding rne_def Let_def True [symmetric] by (simp split: if_splits)
next
  case False
  have "\<lfloor>a\<rfloor> \<le> \<lfloor>b\<rfloor>"
    using assms by (rule floor_mono)
  then have "\<lfloor>a\<rfloor> + 1 \<le> \<lfloor>b\<rfloor>"
    using False by simp
  then show ?thesis
    using rne_bounds [of a] rne_bounds [of b] by linarith
qed

lemma rne_nonneg: "0 \<le> m \<Longrightarrow> 0 \<le> rne m"
  using rne_mono [of 0 m] rne_of_int [of 0] by simp

lemma ulp_pos [simp]: "0 < ulp x"
  by (simp add: ulp_def)

lemma ulp_nonneg [simp]: "0 \<le> ulp x"
  by (simp add: ulp_def)

lemma ulp_nonzero [simp]: "ulp x \<noteq> 0"
  by (simp add: ulp_def)

lemma dbl_zero [simp]: "dbl 0 = 0"
  by (simp add: dbl_def)

lemma dbl_pos: "0 < x \<Longrightarrow> dbl x = of_int (rne (x / ulp x)) * ulp x"
  by (simp add: dbl_def)

lemma dbl_nonneg:
  assumes "0 \<le> x"
  shows "0 \<le> dbl x"
proof (cases "x = 0")
  case True
  then show ?thesis by simp
next
  case False
  then have x: "0 < x"
    using assms by simp
  have "0 \<le> x / ulp x"
    using x by simp
  then have "0 \<le> rne (x / ulp x)"
    by (rule rne_nonneg)
  then show ?thesis
    using x by (simp add: dbl_pos)
qed

text \<open>A multiple of the unit in the last place is kept.\<close>

lemma dbl_grid:
  assumes "0 < x" and "x = of_int k * ulp x"
  shows "dbl x = x"
proof -
  have "x / ulp x = of_int k"
    using assms(2) by (metis nonzero_mult_div_cancel_right ulp_pos less_irrefl)
  then show ?thesis
    using assms by (simp add: dbl_pos)
qed

lemma pow2_int: "0 \<le> k \<Longrightarrow> (2::rat) powi k = of_int (2 ^ nat k)"
  by (simp add: power_int_def)

lemma dbl_exact:
  assumes "0 < m" and "m < 2 ^ 53" and "- 1074 \<le> e"
  shows "dbl (of_int m * 2 powi e) = of_int m * 2 powi e"
proof -
  define x :: rat where "x = of_int m * 2 powi e"
  have x: "0 < x"
    using assms(1) by (simp add: x_def)
  have "x < of_int (2 ^ 53) * 2 powi e"
    unfolding x_def using assms(2) by (simp only: mult_less_cancel_right_pos pow2_pos of_int_less_iff)
  also have "\<dots> = 2 powi (e + 53)"
    by (simp add: power_int_add)
  finally have "x < 2 powi (e + 53)" .
  with binade_bounds [OF x] have "(2::rat) powi binade x < 2 powi (e + 53)"
    by simp
  then have b: "binade x < e + 53"
    by (rule pow2_less)
  define s where "s = e - (max (binade x) (- 1022) - 52)"
  have s: "0 \<le> s"
    using b assms(3) by (simp add: s_def max_def)
  have u: "ulp x = 2 powi (e - s)"
    using x by (simp add: ulp_def s_def)
  have "x = of_int m * (2 powi s * 2 powi (e - s))"
    by (simp add: x_def power_int_add [symmetric])
  also have "\<dots> = of_int (m * 2 ^ nat s) * ulp x"
    using s by (simp add: u pow2_int)
  finally have "x = of_int (m * 2 ^ nat s) * ulp x" .
  with x have "dbl x = x"
    by (rule dbl_grid)
  then show ?thesis
    by (simp add: x_def)
qed

lemma dbl_of_int:
  assumes "0 \<le> k" and "k < 2 ^ 53"
  shows "dbl (of_int k) = of_int k"
proof (cases "k = 0")
  case True
  then show ?thesis by simp
next
  case False
  then have "0 < k"
    using assms(1) by simp
  from dbl_exact [OF this assms(2), of 0] show ?thesis
    by simp
qed

lemma dbl_mono:
  assumes "0 \<le> x" and "x \<le> y"
  shows "dbl x \<le> dbl y"
proof (cases "x = 0")
  case True
  then show ?thesis
    using assms dbl_nonneg [of y] by simp
next
  case False
  then have x: "0 < x"
    using assms(1) by simp
  then have y: "0 < y"
    using assms(2) by simp
  define ex where "ex = max (binade x) (- 1022)"
  define ey where "ey = max (binade y) (- 1022)"
  have ux: "ulp x = 2 powi (ex - 52)" and uy: "ulp y = 2 powi (ey - 52)"
    using x y by (simp_all add: ulp_def ex_def ey_def)
  have le: "ex \<le> ey"
    using binade_mono [OF x assms(2)] by (simp add: ex_def ey_def)
  show ?thesis
  proof (cases "ex = ey")
    case True
    then have u: "ulp x = ulp y"
      by (simp add: ux uy)
    have "x / ulp y \<le> y / ulp y"
      using assms(2) by (simp add: divide_right_mono)
    then have "rne (x / ulp y) \<le> rne (y / ulp y)"
      by (rule rne_mono)
    then show ?thesis
      using x y by (simp add: dbl_pos u)
  next
    case False
    then have lt: "ex < ey"
      using le by simp
    then have bey: "ey = binade y"
      by (simp add: ex_def ey_def max_def split: if_splits)
    define B :: rat where "B = 2 powi ey"
    have "x < 2 powi (binade x + 1)"
      using binade_bounds [OF x] by simp
    also have "\<dots> \<le> B"
      unfolding B_def using lt by (intro pow2_mono) (simp add: ex_def)
    finally have xB: "x \<le> B"
      by simp
    have By: "B \<le> y"
      using binade_bounds [OF y] by (simp add: B_def bey)
    have "B = 2 powi (ey - ex + 52) * 2 powi (ex - 52)"
      by (simp add: B_def power_int_add [symmetric])
    also have "\<dots> = of_int (2 ^ nat (ey - ex + 52)) * ulp x"
      using lt by (simp add: ux pow2_int)
    finally have Bx: "B = of_int (2 ^ nat (ey - ex + 52)) * ulp x" .
    have "x / ulp x \<le> B / ulp x"
      using xB by (simp add: divide_right_mono)
    also have "B / ulp x = of_int (2 ^ nat (ey - ex + 52))"
      by (subst Bx) simp
    finally have "rne (x / ulp x) \<le> rne (of_int (2 ^ nat (ey - ex + 52)))"
      by (rule rne_mono)
    then have "rne (x / ulp x) \<le> 2 ^ nat (ey - ex + 52)"
      by (simp only: rne_of_int)
    then have "(of_int (rne (x / ulp x)) :: rat) \<le> of_int (2 ^ nat (ey - ex + 52))"
      by (simp only: of_int_le_iff)
    then have "of_int (rne (x / ulp x)) * ulp x \<le> of_int (2 ^ nat (ey - ex + 52)) * ulp x"
      by (simp only: mult_le_cancel_right_pos ulp_pos)
    then have 1: "dbl x \<le> B"
      using x by (simp only: dbl_pos Bx [symmetric])
    have "B = 2 powi (52 + (ey - 52))"
      by (simp add: B_def)
    also have "\<dots> = 2 powi 52 * 2 powi (ey - 52)"
      by (rule power_int_add) simp
    also have "\<dots> = of_int (2 ^ 52) * ulp y"
      by (simp add: uy)
    finally have Byy: "B = of_int (2 ^ 52) * ulp y" .
    have "B / ulp y \<le> y / ulp y"
      using By by (simp add: divide_right_mono)
    moreover have "B / ulp y = of_int (2 ^ 52)"
      by (subst Byy) simp
    ultimately have "rne (of_int (2 ^ 52)) \<le> rne (y / ulp y)"
      by (simp only: rne_mono)
    then have "2 ^ 52 \<le> rne (y / ulp y)"
      by (simp only: rne_of_int)
    then have "(of_int (2 ^ 52) :: rat) \<le> of_int (rne (y / ulp y))"
      by (simp only: of_int_le_iff)
    then have "of_int (2 ^ 52) * ulp y \<le> of_int (rne (y / ulp y)) * ulp y"
      by (simp only: mult_le_cancel_right_pos ulp_pos)
    then have 2: "B \<le> dbl y"
      using y by (simp only: dbl_pos Byy [symmetric])
    from 1 2 show ?thesis
      by simp
  qed
qed

text \<open>Results that stay below \<open>2^1024\<close> are finite.\<close>

lemma to_double_fin: "\<bar>dbl x\<bar> < 2 ^ 1024 \<Longrightarrow> to_double x = Fin (dbl x)"
  by (simp add: to_double_def Let_def)

lemma to_double_zero [simp]: "to_double 0 = Fin 0"
  by (simp add: to_double_def)

lemma below_overflow:
  assumes "0 \<le> y" and "y \<le> of_int k" and "k < 2 ^ 53"
  shows "\<bar>y\<bar> < (2::rat) ^ 1024"
proof -
  have "(of_int k :: rat) < of_int (2 ^ 53)"
    using assms(3) by (simp only: of_int_less_iff)
  also have "\<dots> \<le> 2 ^ 1024"
    by simp
  finally show ?thesis
    using assms(1,2) by simp
qed

lemma to_double_bounded:
  assumes "0 \<le> x" and "x \<le> of_int k" and "k < 2 ^ 53"
  shows "to_double x = Fin (dbl x) \<and> 0 \<le> dbl x \<and> dbl x \<le> of_int k"
proof -
  have "(0::rat) \<le> of_int k"
    using assms(1,2) by (rule order_trans)
  then have k: "0 \<le> k"
    by simp
  have "dbl x \<le> dbl (of_int k)"
    using assms(1,2) by (rule dbl_mono)
  then have le: "dbl x \<le> of_int k"
    using dbl_of_int [OF k assms(3)] by simp
  have nn: "0 \<le> dbl x"
    using assms(1) by (rule dbl_nonneg)
  from nn le assms(3) have "\<bar>dbl x\<bar> < 2 ^ 1024"
    by (rule below_overflow)
  then show ?thesis
    using nn le by (simp add: to_double_fin)
qed

lemma to_double_int:
  assumes "0 \<le> k" and "k < 2 ^ 53"
  shows "to_double (of_int k) = Fin (of_int k)"
proof -
  have "(0::rat) \<le> of_int k"
    using assms(1) by simp
  from to_double_bounded [OF this order_refl assms(2)] dbl_of_int [OF assms]
  show ?thesis
    by simp
qed

lemma to_double_eighth:
  assumes "0 \<le> f" and "f < 2 ^ 53"
  shows "to_double (of_int f / 8) = Fin (of_int f / 8)"
proof (cases "f = 0")
  case True
  then show ?thesis by simp
next
  case False
  then have pos: "0 < f"
    using assms(1) by simp
  have e: "(of_int f :: rat) * 2 powi (- 3) = of_int f / 8"
    by (simp add: power_int_minus field_simps)
  from dbl_exact [OF pos assms(2), of "- 3"] have d: "dbl (of_int f / 8) = of_int f / 8"
    by (simp add: e)
  have "(0::rat) \<le> of_int f / 8"
    using assms(1) by simp
  moreover have "(of_int f :: rat) / 8 \<le> of_int f"
    using assms(1) by simp
  ultimately have "\<bar>of_int f / 8\<bar> < (2::rat) ^ 1024"
    using assms(2) by (rule below_overflow)
  then show ?thesis
    using d by (simp add: to_double_fin)
qed

text \<open>Numbers that are not negative stay so under the rounded operations.\<close>

lemma nonneg_to_double: "0 \<le> x \<Longrightarrow> nonneg (to_double x)"
  using dbl_nonneg [of x] by (simp add: to_double_def Let_def inf_of_sign_def)

lemma nonneg_round: "nonneg x \<Longrightarrow> nonneg (round_num x)"
  by (cases x) (simp_all add: nonneg_to_double)

lemma nonneg_mul: "0 < k \<Longrightarrow> nonneg y \<Longrightarrow> nonneg (double_mul (Fin k) y)"
  by (cases y) (simp_all add: double_mul_def nonneg_to_double inf_of_sign_def)

lemma nonneg_div: "nonneg x \<Longrightarrow> 0 < k \<Longrightarrow> nonneg (double_div x (Fin k))"
  by (cases x) (simp_all add: double_div_def nonneg_to_double inf_of_sign_def)

lemma nonneg_floor: "nonneg x \<Longrightarrow> nonneg (num_floor x)"
  by (cases x) simp_all

section \<open>Properties of the bar chart\<close>

lemma trunc_of_int [simp]: "trunc (of_int k) = k"
  by (simp add: trunc_def)

lemma trunc_of_nat [simp]: "trunc (of_nat k) = int k"
  by (simp add: trunc_def)

lemma trunc_numeral [simp]: "trunc (numeral k) = numeral k"
  by (simp add: trunc_def)

lemma trunc_zero [simp]: "trunc 0 = 0"
  by (simp add: trunc_def)

lemma trunc_one [simp]: "trunc 1 = 1"
  by (simp add: trunc_def)

lemma floor_rat_numeral_div [simp]:
  "\<lfloor>(numeral a :: rat) / numeral b\<rfloor> = numeral a div numeral b"
  using floor_divide_of_int_eq [of "numeral a" "numeral b", where ?'a = rat] by simp

lemma trunc_nonneg_div: "0 \<le> k \<Longrightarrow> 0 < l \<Longrightarrow> trunc (of_int k / of_int l) = k div l"
  by (simp add: trunc_def floor_divide_of_int_eq)

lemma syms_cell:
  assumes "m < 9"
  shows "substring syms (Fin (of_nat m)) (Fin (of_nat m + 1)) = [Block m]"
proof -
  have a: "clamp_index 9 (Fin (of_nat m)) = m"
    using assms by (simp add: clamp_index_def)
  have "trunc (of_nat m + 1) = int (Suc m)"
    using trunc_of_nat [of "Suc m"] by (simp add: add.commute)
  then have b: "clamp_index 9 (Fin (of_nat m + 1)) = Suc m"
    using assms by (simp add: clamp_index_def)
  have "take (Suc 0) (drop m (map Block [0..<9])) = [Block m]"
    using assms by (simp add: drop_map take_map)
  then show ?thesis
    using a b by (simp add: substring_def syms_def)
qed

lemma syms_full: "substring syms (Fin 8) (Fin 9) = [Block 8]"
  using syms_cell [of 8] by simp

lemma syms_empty: "substring syms (Fin 0) (Fin 1) = [Block 0]"
  using syms_cell [of 0] by simp

lemma repeat_cell:
  "int k \<le> maxStringLength \<Longrightarrow> repeat [c] (Fin (of_nat k)) = Inr (replicate k c)"
  by (simp add: repeat_def)

lemma padEnd_cell: "padEnd s n [c] = s @ replicate (n - length s) c"
  by (simp add: padEnd_def padding_def)

lemma padStart_cell: "padStart s n [c] = replicate (n - length s) c @ s"
  by (simp add: padStart_def padding_def)

text \<open>
  The body of \<open>generateBarChart\<close> once \<open>frac\<close> is a non-negative integer below
  \<open>2^53\<close>: the quotient by 8 is exact.
\<close>

lemma bar_of_frac:
  assumes "0 \<le> f" and "f < 2 ^ 53" and "int sz \<le> maxStringLength"
  shows "(let frac = Fin (of_int f); barsFull = num_floor (double_div frac (Fin 8))
      in if num_ge barsFull (Fin (of_nat sz))
         then repeat (substring syms (Fin 8) (Fin 9)) (Fin (of_nat sz))
         else
           let semi = num_rem frac (Fin 8) in
           case repeat (substring syms (Fin 8) (Fin 9)) barsFull of
             Inl e \<Rightarrow> Inl e
           | Inr full \<Rightarrow>
               if maxStringLength < int sz then Inl RangeError
               else Inr (padEnd (full @ substring syms semi (num_add semi (Fin 1))) sz
                           (substring syms (Fin 0) (Fin 1)))) =
     Inr (if int sz \<le> f div 8 then replicate sz (Block 8)
          else replicate (nat (f div 8)) (Block 8) @ [Block (nat (f mod 8))] @
               replicate (sz - nat (f div 8) - 1) (Block 0))"
proof -
  have "double_div (Fin (of_int f)) (Fin 8) = Fin (of_int f / 8)"
    using to_double_eighth [OF assms(1,2)] by (simp add: double_div_def)
  then have fl: "num_floor (double_div (Fin (of_int f)) (Fin 8)) = Fin (of_int (f div 8))"
    using floor_divide_of_int_eq [of f 8, where ?'a = rat] by simp
  have g: "num_ge (Fin (of_int (f div 8))) (Fin (of_nat sz)) = (int sz \<le> f div 8)"
    by (metis num_ge.simps(1) of_int_le_iff of_int_of_nat_eq)
  have "trunc (of_int f / 8) = f div 8"
    using trunc_nonneg_div [of f 8] assms(1) by simp
  then have "(of_int f :: rat) - 8 * of_int (trunc (of_int f / 8)) = of_int (f - 8 * (f div 8))"
    by simp
  also have "f - 8 * (f div 8) = f mod 8"
    by (simp add: minus_mult_div_eq_mod)
  finally have r: "num_rem (Fin (of_int f)) (Fin 8) = Fin (of_nat (nat (f mod 8)))"
    by simp
  have d: "0 \<le> f div 8"
    using assms(1) by (simp add: pos_imp_zdiv_nonneg_iff)
  have rp: "repeat [Block 8] (Fin (of_int (f div 8))) = Inr (replicate (nat (f div 8)) (Block 8))"
    if "\<not> int sz \<le> f div 8"
  proof -
    have "int (nat (f div 8)) \<le> maxStringLength"
      using d that assms(3) by simp
    from repeat_cell [OF this, of "Block 8"] d show ?thesis
      by simp
  qed
  have m: "nat (f mod 8) < 9"
    by simp
  have full: "repeat [Block 8] (Fin (of_nat sz)) = Inr (replicate sz (Block 8))"
    using assms(3) by (rule repeat_cell)
  show ?thesis
  proof (cases "int sz \<le> f div 8")
    case True
    then show ?thesis
      unfolding Let_def fl g syms_full by (simp add: full)
  next
    case False
    show ?thesis
      unfolding Let_def fl g r rp [OF False] syms_full syms_empty num_add.simps syms_cell [OF m]
      using False assms(3) by (simp add: padEnd_cell)
  qed
qed

text \<open>
  The eighths \<open>frac\<close> of a percentage from 0 to 100, for a width that a string can
  have: no product or quotient leaves the integers below \<open>2^53\<close>.
\<close>

lemma frac_of_percent:
  assumes "int sz \<le> maxStringLength" and "0 \<le> p" and "p \<le> 100"
  shows "num_floor (double_div (double_mul (double_mul (Fin (of_nat sz)) (Fin 8)) (Fin p)) (Fin 100)) =
           Fin (of_int \<lfloor>dbl (dbl (of_nat sz * 8 * p) / 100)\<rfloor>) \<and>
         0 \<le> \<lfloor>dbl (dbl (of_nat sz * 8 * p) / 100)\<rfloor> \<and>
         \<lfloor>dbl (dbl (of_nat sz * 8 * p) / 100)\<rfloor> \<le> 8 * int sz"
proof -
  have sz: "int sz < 2 ^ 29"
    using assms(1) by (simp add: maxStringLength_def)
  then have k8: "8 * int sz < 2 ^ 53" and k800: "800 * int sz < 2 ^ 53"
    by simp_all
  have a: "to_double (of_nat sz * 8) = Fin (of_nat sz * 8)"
    using to_double_int [of "8 * int sz"] k8 by (simp add: mult.commute)
  have "of_nat sz * 8 * p \<le> of_nat sz * 8 * (100::rat)"
    using assms(3) by (intro mult_left_mono) simp_all
  then have "of_nat sz * 8 * p \<le> (of_int (800 * int sz) :: rat)"
    by simp
  moreover have "0 \<le> of_nat sz * 8 * p"
    using assms(2) by simp
  ultimately have b: "to_double (of_nat sz * 8 * p) = Fin (dbl (of_nat sz * 8 * p))"
    and b0: "0 \<le> dbl (of_nat sz * 8 * p)"
    and b1: "dbl (of_nat sz * 8 * p) \<le> of_int (800 * int sz)"
    using to_double_bounded [of "of_nat sz * 8 * p" "800 * int sz"] k800 by simp_all
  have "dbl (of_nat sz * 8 * p) / 100 \<le> of_int (800 * int sz) / 100"
    using b1 by (simp add: divide_right_mono)
  then have "dbl (of_nat sz * 8 * p) / 100 \<le> (of_int (8 * int sz) :: rat)"
    by simp
  moreover have "0 \<le> dbl (of_nat sz * 8 * p) / 100"
    using b0 by simp
  ultimately have c: "to_double (dbl (of_nat sz * 8 * p) / 100) = Fin (dbl (dbl (of_nat sz * 8 * p) / 100))"
    and c0: "0 \<le> dbl (dbl (of_nat sz * 8 * p) / 100)"
    and c1: "dbl (dbl (of_nat sz * 8 * p) / 100) \<le> of_int (8 * int sz)"
    using to_double_bounded [of "dbl (of_nat sz * 8 * p) / 100" "8 * int sz"] k8 by simp_all
  have "\<lfloor>dbl (dbl (of_nat sz * 8 * p) / 100)\<rfloor> \<le> \<lfloor>(of_int (8 * int sz) :: rat)\<rfloor>"
    using c1 by (rule floor_mono)
  then have f1: "\<lfloor>dbl (dbl (of_nat sz * 8 * p) / 100)\<rfloor> \<le> 8 * int sz"
    by (simp only: floor_of_int)
  have f0: "0 \<le> \<lfloor>dbl (dbl (of_nat sz * 8 * p) / 100)\<rfloor>"
    using c0 by simp
  have "num_floor (double_div (double_mul (double_mul (Fin (of_nat sz)) (Fin 8)) (Fin p)) (Fin 100)) =
           Fin (of_int \<lfloor>dbl (dbl (of_nat sz * 8 * p) / 100)\<rfloor>)"
    unfolding double_mul_def double_div_def by (simp add: a b c)
  then show ?thesis
    using f0 f1 by simp
qed

lemma generateBarChart_Fin:
  assumes "int sz \<le> maxStringLength" and "0 \<le> p" and "p \<le> 100"
  shows "generateBarChart (Fin p) sz =
     Inr (let f = \<lfloor>dbl (dbl (of_nat sz * 8 * p) / 100)\<rfloor> in
          if int sz \<le> f div 8 then replicate sz (Block 8)
          else replicate (nat (f div 8)) (Block 8) @ [Block (nat (f mod 8))] @
               replicate (sz - nat (f div 8) - 1) (Block 0))"
proof -
  define f where "f = \<lfloor>dbl (dbl (of_nat sz * 8 * p) / 100)\<rfloor>"
  from frac_of_percent [OF assms]
  have fr: "num_floor (double_div (double_mul (double_mul (Fin (of_nat sz)) (Fin 8)) (Fin p)) (Fin 100)) =
           Fin (of_int f)"
    and f0: "0 \<le> f" and f1: "f \<le> 8 * int sz"
    by (simp_all add: f_def)
  have "int sz < 2 ^ 29"
    using assms(1) by (simp add: maxStringLength_def)
  then have "f < 2 ^ 53"
    using f1 by simp
  from bar_of_frac [OF f0 this assms(1)] show ?thesis
    unfolding generateBarChart_def fr f_def [symmetric] by (simp only: Let_def)
qed

text \<open>A percentage that is \<open>NaN\<close> (the quotient \<open>0 / 0\<close>) gives the empty bar.\<close>

lemma num_mul_NaN [simp]: "num_mul x NaN = NaN"
  by (cases x) simp_all

lemma generateBarChart_NaN:
  assumes "int sz \<le> maxStringLength"
  shows "generateBarChart NaN sz = Inr (replicate sz (Block 0))"
proof -
  have "substring syms NaN (num_add NaN (Fin 1)) = []"
    by (simp add: substring_def clamp_index_def)
  moreover have "repeat [Block 8] NaN = Inr []"
    by (simp add: repeat_def maxStringLength_def)
  ultimately show ?thesis
    using assms
    by (simp add: generateBarChart_def double_mul_def double_div_def syms_full syms_empty padEnd_cell)
qed

text \<open>A percentage that is not negative never makes the bar of the report throw.\<close>

lemma bar_body_total:
  assumes "nonneg barsFull" and "barsFull = num_floor x"
  shows "\<exists>bar. (if num_ge barsFull (Fin (of_nat 19))
         then repeat (substring syms (Fin 8) (Fin 9)) (Fin (of_nat 19))
         else
           let semi = num_rem fr (Fin 8) in
           case repeat (substring syms (Fin 8) (Fin 9)) barsFull of
             Inl e \<Rightarrow> Inl e
           | Inr full \<Rightarrow>
               if maxStringLength < int 19 then Inl RangeError
               else Inr (padEnd (full @ substring syms semi (num_add semi (Fin 1))) 19
                           (substring syms (Fin 0) (Fin 1)))) = Inr bar"
proof (cases "num_ge barsFull (Fin (of_nat 19))")
  case True
  have "repeat [Block 8] (Fin (of_nat 19)) = Inr (replicate 19 (Block 8))"
    by (rule repeat_cell) (simp add: maxStringLength_def)
  with True show ?thesis
    by (simp add: syms_full)
next
  case False
  with assms obtain q where q: "x = Fin q" "0 \<le> \<lfloor>q\<rfloor>" "\<lfloor>q\<rfloor> < 19"
    by (cases x) auto
  have "int (nat \<lfloor>q\<rfloor>) \<le> maxStringLength"
    using q by (simp add: maxStringLength_def)
  from repeat_cell [OF this, of "Block 8"] q
  have "repeat [Block 8] barsFull = Inr (replicate (nat \<lfloor>q\<rfloor>) (Block 8))"
    by (simp add: assms(2))
  with False show ?thesis
    by (simp add: syms_full Let_def maxStringLength_def)
qed

lemma generateBarChart_nonneg:
  assumes "nonneg percent"
  shows "\<exists>bar. generateBarChart percent 19 = Inr bar"
proof -
  have a: "double_mul (Fin (of_nat 19)) (Fin 8) = Fin 152"
    using to_double_int [of 152] by (simp add: double_mul_def)
  have "nonneg (double_mul (Fin 152) percent)"
    using assms by (intro nonneg_mul) simp_all
  then have "nonneg (double_div (double_mul (Fin 152) percent) (Fin 100))"
    by (rule nonneg_div) simp
  then have "nonneg (num_floor (double_div (double_mul (Fin 152) percent) (Fin 100)))"
    by (rule nonneg_floor)
  then have "nonneg (double_div (num_floor (double_div (double_mul (Fin 152) percent) (Fin 100))) (Fin 8))"
    by (rule nonneg_div) simp
  then have "nonneg (num_floor (double_div (num_floor (double_div (double_mul (Fin 152) percent) (Fin 100))) (Fin 8)))"
    by (rule nonneg_floor)
  from bar_body_total [OF this refl] show ?thesis
    unfolding generateBarChart_def a Let_def .
qed

text \<open>
  C3. For a width \<open>n\<close> from 1 up to the longest string of the runtime: the bar of 0
  percent is \<open>n\<close> empty cells, the bar of 100 percent is \<open>n\<close> full cells, and for every
  percentage \<open>p\<close> from 0 to 100 the bar has exactly \<open>n\<close> cells. With \<open>frac\<close> the
  floor of \<open>n * 8 * p / 100\<close> as the program computes it, the product by \<open>p\<close> and the
  quotient by 100 each rounded to binary64, and \<open>floor (frac / 8)\<close> full cells, the bar
  is entirely full when that count reaches \<open>n\<close>, and otherwise the full cells, one cell
  at the eighth-level \<open>frac mod 8\<close>, and empty cells up to the width.
\<close>

theorem generateBarChart_cells:
  assumes "1 \<le> n" and "int n \<le> maxStringLength" and "0 \<le> p" and "p \<le> 100"
  shows "generateBarChart (Fin 0) n = Inr (replicate n (Block 0)) \<and>
         generateBarChart (Fin 100) n = Inr (replicate n (Block 8)) \<and>
         (\<exists>bar. generateBarChart (Fin p) n = Inr bar \<and> length bar = n \<and>
            bar = (let frac = \<lfloor>dbl (dbl (of_nat n * 8 * p) / 100)\<rfloor>; full = nat (frac div 8)
                   in if n \<le> full then replicate n (Block 8)
                      else replicate full (Block 8) @ [Block (nat (frac mod 8))] @
                           replicate (n - full - 1) (Block 0)))"
proof (intro conjI)
  have "Block 0 # replicate (n - Suc 0) (Block 0) = replicate n (Block 0)"
    using assms(1) by (cases n) simp_all
  then show "generateBarChart (Fin 0) n = Inr (replicate n (Block 0))"
    using assms(1) generateBarChart_Fin [OF assms(2), of 0] by simp
next
  have n: "int n < 2 ^ 29"
    using assms(2) by (simp add: maxStringLength_def)
  have "dbl (of_int (800 * int n)) = of_int (800 * int n)"
    using n by (intro dbl_of_int) simp_all
  then have a: "dbl (800 * of_nat n) = 800 * of_nat n"
    by simp
  have "dbl (of_int (8 * int n)) = of_int (8 * int n)"
    using n by (intro dbl_of_int) simp_all
  then have b: "dbl (8 * of_nat n) = 8 * of_nat n"
    by simp
  have "\<lfloor>(of_int (8 * int n) :: rat)\<rfloor> = 8 * int n"
    by (simp only: floor_of_int)
  then have c: "\<lfloor>8 * (of_nat n :: rat)\<rfloor> = 8 * int n"
    by simp
  show "generateBarChart (Fin 100) n = Inr (replicate n (Block 8))"
    using generateBarChart_Fin [OF assms(2), of 100] by (simp add: a b c)
next
  define f where "f = \<lfloor>dbl (dbl (of_nat n * 8 * p) / 100)\<rfloor>"
  have f0: "0 \<le> f"
    using frac_of_percent [OF assms(2,3,4)] by (simp add: f_def)
  then have d0: "0 \<le> f div 8"
    by (simp add: pos_imp_zdiv_nonneg_iff)
  have le: "(int n \<le> f div 8) = (n \<le> nat (f div 8))"
    using d0 by linarith
  let ?bar = "if n \<le> nat (f div 8) then replicate n (Block 8)
              else replicate (nat (f div 8)) (Block 8) @ [Block (nat (f mod 8))] @
                   replicate (n - nat (f div 8) - 1) (Block 0)"
  have "generateBarChart (Fin p) n = Inr ?bar"
    using generateBarChart_Fin [OF assms(2,3,4)] le by (simp add: Let_def f_def)
  moreover have "length ?bar = n"
    by simp
  ultimately show "\<exists>bar. generateBarChart (Fin p) n = Inr bar \<and> length bar = n \<and>
            bar = (let frac = \<lfloor>dbl (dbl (of_nat n * 8 * p) / 100)\<rfloor>; full = nat (frac div 8)
                   in if n \<le> full then replicate n (Block 8)
                      else replicate full (Block 8) @ [Block (nat (frac mod 8))] @
                           replicate (n - full - 1) (Block 0))"
    by (simp add: Let_def f_def)
qed

text \<open>
  The width 19 of the report, at 40 percent and at the percentage the program computes
  for 3000 of 19000 metres, the binary64 value \<open>15.789473684210526\<close>.
\<close>

lemma frac_at_40: "\<lfloor>dbl (dbl 6080 / 100)\<rfloor> = 60"
  by code_simp

lemma frac_at_3_of_19: "\<lfloor>dbl (dbl (152 * (8888683475073347 / 562949953421312)) / 100)\<rfloor> = 24"
  by code_simp

theorem generateBarChart_cells_witness:
  "generateBarChart (Fin 0) 19 = Inr (replicate 19 (Block 0)) \<and>
   generateBarChart (Fin 100) 19 = Inr (replicate 19 (Block 8)) \<and>
   generateBarChart (Fin 40) 19 =
     Inr (replicate 7 (Block 8) @ [Block 4] @ replicate 11 (Block 0)) \<and>
   length (replicate 7 (Block 8) @ [Block 4] @ replicate 11 (Block 0)) = 19 \<and>
   generateBarChart (Fin (8888683475073347 / 562949953421312)) 19 =
     Inr (replicate 3 (Block 8) @ [Block 0] @ replicate 15 (Block 0))"
  using generateBarChart_cells [of 19 40]
    generateBarChart_cells [of 19 "8888683475073347 / 562949953421312"]
    frac_at_40 frac_at_3_of_19
  by (simp add: Let_def maxStringLength_def)

text \<open>
  The claim C3 as stated covers every width and reads the eighths as an exact quotient.
  A width above the longest string has no bar: at \<open>2^30\<close> cells the padding raises
  RangeError. And the eighths are those of the rounded product: at the percentage of
  3000 in 19000 metres the exact quotient \<open>19 * 8 * p / 100\<close> is below 24, with floor
  23, two full cells and a cell at level 7, while the program computes 24 and draws
  three full cells and an empty one.
\<close>

theorem generateBarChart_width_and_rounding:
  "generateBarChart (Fin 0) 1073741824 = Inl RangeError \<and>
   generateBarChart (Fin (8888683475073347 / 562949953421312)) 19 =
     Inr (replicate 3 (Block 8) @ [Block 0] @ replicate 15 (Block 0)) \<and>
   \<lfloor>19 * 8 * (8888683475073347 / 562949953421312 :: rat) / 100\<rfloor> = 23"
proof (intro conjI)
  have a: "double_mul (Fin (of_nat 1073741824)) (Fin 8) = Fin 8589934592"
    using to_double_int [of 8589934592] by (simp add: double_mul_def)
  have b: "double_div (Fin 0) (Fin 8) = Fin 0" "double_div (Fin 0) (Fin 100) = Fin 0"
    "double_mul (Fin 8589934592) (Fin 0) = Fin 0"
    by (simp_all add: double_div_def double_mul_def)
  have c: "repeat [Block 8] (Fin 0) = Inr []"
    by (simp add: repeat_def maxStringLength_def)
  show "generateBarChart (Fin 0) 1073741824 = Inl RangeError"
    unfolding generateBarChart_def a by (simp add: b c syms_full maxStringLength_def)
next
  have p: "0 \<le> (8888683475073347 / 562949953421312 :: rat)"
    "(8888683475073347 / 562949953421312 :: rat) \<le> 100"
    by simp_all
  have w: "int 19 \<le> maxStringLength"
    by (simp add: maxStringLength_def)
  show "generateBarChart (Fin (8888683475073347 / 562949953421312)) 19 =
     Inr (replicate 3 (Block 8) @ [Block 0] @ replicate 15 (Block 0))"
    using generateBarChart_Fin [OF w p] frac_at_3_of_19 by (simp add: Let_def)
next
  show "\<lfloor>19 * 8 * (8888683475073347 / 562949953421312 :: rat) / 100\<rfloor> = 23"
    by simp
qed

section \<open>Properties of the pace text\<close>

lemma calculatePace_sentinel:
  "\<not> truthy d \<or> \<not> truthy t \<Longrightarrow> calculatePace rt units d t = ''0:00/km''"
  by (auto simp: calculatePace_def)

lemma calculatePace_suffix:
  assumes "truthy d" and "truthy t"
  shows "endsWith (calculatePace rt units d t) (if units = Some ''miles'' then ''/mi'' else ''/km'')"
  using assms by (simp add: calculatePace_def endsWith_def Let_def)

text \<open>
  C2. \<open>calculatePace(0, t)\<close> and \<open>calculatePace(d, 0)\<close> yield the zero-pace sentinel.
  The sentinel is the fixed text \<open>0:00/km\<close>: with miles configured it still ends in
  \<open>/km\<close> and not in \<open>/mi\<close>, so its unit suffix does not follow the configured
  measurement system, while every other pace text does (\<open>calculatePace_suffix\<close>).
\<close>

theorem calculatePace_sentinel_ignores_units:
  "calculatePace rt (Some ''miles'') (Fin 0) t = ''0:00/km'' \<and>
   calculatePace rt (Some ''miles'') d (Fin 0) = ''0:00/km'' \<and>
   \<not> endsWith (calculatePace rt (Some ''miles'') (Fin 0) (Fin 1800)) ''/mi''"
  by (simp add: calculatePace_def endsWith_def)

theorem calculatePace_sentinel_ignores_units_witness:
  "calculatePace sample_runtime (Some ''miles'') (Fin 0) (Fin 1800) = ''0:00/km'' \<and>
   calculatePace sample_runtime (Some ''miles'') (Fin 5000) (Fin 0) = ''0:00/km''"
  using calculatePace_sentinel_ignores_units [of sample_runtime "Fin 1800" "Fin 5000"]
  by simp

section \<open>Properties of the per-discipline pace\<close>



section \<open>Properties of the 7-day window\<close>









section \<open>Properties of the monthly block\<close>







section \<open>Properties of the per-discipline lines\<close>

lemma toFixed2_zero: "toFixed2 rt (Fin 0) = ''0.00''"
  by (simp add: toFixed2_def digits.simps digit_char_def)

text \<open>
  The two conversion constants as binary64 values, and the Number that \<open>toFixed\<close>
  reads in \<open>formatDistance\<close>.
\<close>

lemma dbl_km: "dbl (1 / 1000) = 1152921504606847 / 1152921504606846976"
  by code_simp

lemma dbl_miles: "dbl (621371192 / 10 ^ 12) = 358196104799995 / 576460752303423488"
  by code_simp

lemma km_constant: "to_double (1 / 1000) = Fin (dbl (1 / 1000))"
proof -
  have "\<bar>dbl (1 / 1000)\<bar> < 2 ^ 1024"
    by (simp only: dbl_km) simp
  then show ?thesis
    by (rule to_double_fin)
qed

lemma miles_constant: "to_double (621371192 / 10 ^ 12) = Fin (dbl (621371192 / 10 ^ 12))"
proof -
  have "\<bar>dbl (621371192 / 10 ^ 12)\<bar> < 2 ^ 1024"
    by (simp only: dbl_miles) simp
  then show ?thesis
    by (rule to_double_fin)
qed

lemma formatDistance_converted:
  "formatDistance rt units (Fin d) =
     toFixed2 rt (to_double (d * dbl (factor units))) @
     (if units = Some ''miles'' then '' mi'' else '' km'')"
  unfolding formatDistance_def metersToKm_def metersToMiles_def km_constant miles_constant
    double_mul_def factor_def
  by simp

lemma formatDistance_zero:
  "formatDistance rt units (Fin 0) = ''0.00'' @ (if units = Some ''miles'' then '' mi'' else '' km'')"
  by (simp add: formatDistance_converted toFixed2_zero)

lemma percent_of_zero:
  "num_mul (num_div (Fin 0) td) (Fin 100) = Fin 0 \<or> num_mul (num_div (Fin 0) td) (Fin 100) = NaN"
  by (cases td) auto

lemma report_width: "int 19 \<le> maxStringLength"
  by (simp add: maxStringLength_def)

lemma generateBarChart_zero: "generateBarChart (Fin 0) 19 = Inr (replicate 19 (Block 0))"
proof -
  have "Block 0 # replicate 18 (Block 0) = replicate 19 (Block 0)"
    by (simp add: numeral_eq_Suc)
  then show ?thesis
    using generateBarChart_Fin [OF report_width, of 0] by simp
qed

lemma generateBarChart_NaN_report: "generateBarChart NaN 19 = Inr (replicate 19 (Block 0))"
  using report_width by (rule generateBarChart_NaN)

lemma formatEntry_zero: "formatEntry rt units td (zero_entry activityType) = Inr (zero_line rt units activityType)"
proof -
  have "generateBarChart (num_mul (num_div (Fin 0) td) (Fin 100)) 19 = Inr (replicate 19 (Block 0))"
    using percent_of_zero [of td] generateBarChart_zero generateBarChart_NaN_report by auto
  then show ?thesis
    by (simp add: formatEntry_def zero_entry_def zero_line_def formatDistance_zero
        substring_def clamp_index_def Let_def)
qed

lemma num_div_NaN: "num_div x NaN = NaN"
  by (cases x) simp_all

lemma formatEntry_NaN_total: "\<exists>line. formatEntry rt units NaN e = Inr line"
  by (simp add: formatEntry_def Let_def num_div_NaN generateBarChart_NaN_report)

lemma pace_of_zero_distance:
  "num_div (Fin 0) (if truthy_val v then toNumber v else Fin 1) = Fin 0"
proof (cases v)
  case Undefined
  then show ?thesis by simp
next
  case (Num x)
  then show ?thesis by (cases x) simp_all
qed

lemma extractEntry_missing:
  "map_of data key = None \<Longrightarrow> extractEntry data td (activityType, key) = (zero_entry activityType, td)"
  by (simp add: extractEntry_def zero_entry_def)

lemma extractEntry_zero_distance:
  "map_of data key = Some t \<Longrightarrow> distance t = Num (Fin 0) \<Longrightarrow>
   extractEntry data (Fin 0) (activityType, key) = (zero_entry activityType, Fin 0)"
  using pace_of_zero_distance [of "moving_time t"]
  by (simp add: extractEntry_def zero_entry_def)

lemma extractAll_length: "length (fst (extractAll data td ms)) = length ms"
  by (induction ms arbitrary: td) (simp_all add: split_def Let_def)

lemma extractAll_append:
  "extractAll data td (ms1 @ ms2) =
     (fst (extractAll data td ms1) @ fst (extractAll data (snd (extractAll data td ms1)) ms2),
      snd (extractAll data (snd (extractAll data td ms1)) ms2))"
  by (induction ms1 arbitrary: td) (simp_all add: split_def Let_def)

lemma extractAll_missing:
  assumes "map_of data key = None"
  shows "extractAll data td (before @ (activityType, key) # after) =
     (take (length before) (fst (extractAll data td (before @ after))) @
        zero_entry activityType #
        drop (length before) (fst (extractAll data td (before @ after))),
      snd (extractAll data td (before @ after)))"
proof -
  have "extractAll data t ((activityType, key) # after) =
          (zero_entry activityType # fst (extractAll data t after), snd (extractAll data t after))" for t
    using assms by (simp add: extractEntry_missing split_def Let_def)
  then show ?thesis
    by (simp add: extractAll_append [of data td before] extractAll_length)
qed

text \<open>Entries with plain distances never make the formatter throw.\<close>

lemma formatEntry_plain:
  assumes "entry_distance e = Num (Fin d)" and "0 \<le> d" and "0 \<le> T"
  shows "\<exists>line. formatEntry rt units (Fin T) e = Inr line"
proof -
  have "\<exists>bar. generateBarChart (num_mul (num_div (Fin d) (Fin T)) (Fin 100)) 19 = Inr bar"
  proof (cases "T = 0")
    case False
    then have "num_mul (num_div (Fin d) (Fin T)) (Fin 100) = Fin (d / T * 100)"
      by simp
    moreover have "0 \<le> d / T * 100"
      using assms by simp
    ultimately have "nonneg (num_mul (num_div (Fin d) (Fin T)) (Fin 100))"
      by simp
    then show ?thesis
      by (rule generateBarChart_nonneg)
  next
    case True
    show ?thesis
    proof (cases "d = 0")
      case True
      with \<open>T = 0\<close> show ?thesis
        by (simp add: generateBarChart_NaN_report)
    next
      case False
      with \<open>T = 0\<close> assms have "num_mul (num_div (Fin d) (Fin T)) (Fin 100) = PosInf"
        by (simp add: inf_of_sign_def)
      then have "nonneg (num_mul (num_div (Fin d) (Fin T)) (Fin 100))"
        by simp
      then show ?thesis
        by (rule generateBarChart_nonneg)
    qed
  qed
  then show ?thesis
    using assms(1) by (auto simp: formatEntry_def Let_def)
qed

lemma formatEntries_plain:
  assumes "list_all plain_entry es" and "0 \<le> T"
  shows "\<exists>lines. formatEntries rt units (Fin T) es = Inr lines \<and> length lines = length es"
  using assms(1)
proof (induction es)
  case Nil
  show ?case by simp
next
  case (Cons e es)
  then obtain d where d: "entry_distance e = Num (Fin d)" "0 \<le> d"
    by (auto simp: plain_entry_def split: jsval.splits number.splits)
  from formatEntry_plain [OF d assms(2)] obtain line
    where "formatEntry rt units (Fin T) e = Inr line" by blast
  moreover from Cons obtain lines
    where "formatEntries rt units (Fin T) es = Inr lines" "length lines = length es" by auto
  ultimately show ?case by simp
qed

lemma extractEntry_plain:
  assumes "case map_of data (snd m) of None \<Rightarrow> True | Some t \<Rightarrow> plain_distance t" and "0 \<le> T"
  shows "plain_entry (fst (extractEntry data (Fin T) m)) \<and>
         (\<exists>T'. snd (extractEntry data (Fin T) m) = Fin T' \<and> 0 \<le> T')"
proof (cases "map_of data (snd m)")
  case None
  with assms(2) show ?thesis
    by (simp add: extractEntry_def plain_entry_def)
next
  case (Some t)
  with assms(1) obtain d where "distance t = Num (Fin d)" "0 \<le> d"
    by (auto simp: plain_distance_def split: jsval.splits number.splits)
  with Some assms(2) show ?thesis
    by (simp add: extractEntry_def plain_entry_def)
qed

lemma extractAll_plain:
  assumes "\<forall>m\<in>set ms. case map_of data (snd m) of None \<Rightarrow> True | Some t \<Rightarrow> plain_distance t"
    and "0 \<le> T"
  shows "list_all plain_entry (fst (extractAll data (Fin T) ms)) \<and>
         (\<exists>T'. snd (extractAll data (Fin T) ms) = Fin T' \<and> 0 \<le> T')"
  using assms
proof (induction ms arbitrary: T)
  case Nil
  then show ?case by simp
next
  case (Cons m ms)
  from Cons.prems extractEntry_plain [of data m T] obtain T1
    where e: "plain_entry (fst (extractEntry data (Fin T) m))"
      "snd (extractEntry data (Fin T) m) = Fin T1" "0 \<le> T1"
    by auto
  from Cons.IH [of T1] Cons.prems e(3)
  have "list_all plain_entry (fst (extractAll data (Fin T1) ms)) \<and>
        (\<exists>T'. snd (extractAll data (Fin T1) ms) = Fin T' \<and> 0 \<le> T')"
    by simp
  with e show ?case
    by (simp add: split_def Let_def)
qed

lemma activityTypeLines_plain:
  assumes "\<forall>m\<in>set keyMappings. case map_of data (snd m) of None \<Rightarrow> True | Some t \<Rightarrow> plain_distance t"
  shows "\<exists>lines. activityTypeLines rt units data = Inr lines \<and> length lines = 3"
proof -
  from extractAll_plain [OF assms, of 0] obtain T
    where p: "list_all plain_entry (fst (extractAll data (Fin 0) keyMappings))"
      and T: "snd (extractAll data (Fin 0) keyMappings) = Fin T" "0 \<le> T"
    by auto
  have len: "length keyMappings = 3"
    by (simp add: keyMappings_def)
  from formatEntries_plain [OF p T(2), of rt units] obtain lines
    where "formatEntries rt units (Fin T) (fst (extractAll data (Fin 0) keyMappings)) = Inr lines"
      and "length lines = length (fst (extractAll data (Fin 0) keyMappings))"
    by blast
  then show ?thesis
    using T(1) len by (simp add: activityTypeLines_def split_def extractAll_length)
qed

text \<open>With no distance anywhere, every entry is the zero entry and the total stays 0.\<close>

lemma extractAll_zero_total:
  assumes "\<forall>m\<in>set keyMappings.
             case map_of data (snd m) of None \<Rightarrow> True | Some t \<Rightarrow> distance t = Num (Fin 0)"
  shows "extractAll data (Fin 0) keyMappings =
           ([zero_entry ''Running'', zero_entry ''Swimming'', zero_entry ''Cycling''], Fin 0)"
proof -
  have z: "extractEntry data (Fin 0) (activityType, key) = (zero_entry activityType, Fin 0)"
    if "(activityType, key) \<in> set keyMappings" for activityType key
  proof (cases "map_of data key")
    case None
    then show ?thesis by (simp add: extractEntry_missing)
  next
    case (Some t)
    with assms that have "distance t = Num (Fin 0)" by fastforce
    with Some show ?thesis by (simp add: extractEntry_zero_distance)
  qed
  have "extractEntry data (Fin 0) (''Running'', ''ytd_run_totals'') = (zero_entry ''Running'', Fin 0)"
    and "extractEntry data (Fin 0) (''Swimming'', ''ytd_swim_totals'') = (zero_entry ''Swimming'', Fin 0)"
    and "extractEntry data (Fin 0) (''Cycling'', ''ytd_ride_totals'') = (zero_entry ''Cycling'', Fin 0)"
    by (simp_all add: z keyMappings_def)
  then show ?thesis
    by (simp add: keyMappings_def)
qed

lemma activityTypeLines_zero_total:
  assumes "\<forall>m\<in>set keyMappings.
             case map_of data (snd m) of None \<Rightarrow> True | Some t \<Rightarrow> distance t = Num (Fin 0)"
  shows "activityTypeLines rt units data =
           Inr [zero_line rt units ''Running'', zero_line rt units ''Swimming'',
                zero_line rt units ''Cycling'']"
  by (simp add: activityTypeLines_def extractAll_zero_total [OF assms] formatEntry_zero)

text \<open>
  C10. When every discipline is missing from the payload or has distance 0, the total
  distance is 0 and each percentage is the quotient \<open>0 / 0\<close>. The bar chart of that
  percentage is 19 empty cells, each discipline line is the zero line with that bar,
  and the formatting pass returns its lines without an error.
\<close>

theorem zero_total_report:
  assumes "\<forall>m\<in>set keyMappings.
             case map_of data (snd m) of None \<Rightarrow> True | Some t \<Rightarrow> distance t = Num (Fin 0)"
  shows "snd (extractAll data (Fin 0) keyMappings) = Fin 0 \<and>
         generateBarChart (num_mul (num_div (Fin 0) (Fin 0)) (Fin 100)) 19 =
           Inr (replicate 19 (Block 0)) \<and>
         activityTypeLines rt units data =
           Inr [zero_line rt units ''Running'', zero_line rt units ''Swimming'',
                zero_line rt units ''Cycling''] \<and>
         (\<exists>lines. allLines rt units data activities = Inr lines)"
  using extractAll_zero_total [OF assms] activityTypeLines_zero_total [OF assms, of rt units]
  by (simp add: allLines_def generateBarChart_NaN_report)

theorem zero_total_report_witness:
  "snd (extractAll [(''ytd_run_totals'', sample_totals 0 0)] (Fin 0) keyMappings) = Fin 0 \<and>
   activityTypeLines sample_runtime None [(''ytd_run_totals'', sample_totals 0 0)] =
     Inr [zero_line sample_runtime None ''Running'', zero_line sample_runtime None ''Swimming'',
          zero_line sample_runtime None ''Cycling''] \<and>
   zero_line sample_runtime None ''Running'' =
     str ''Running          0.00 km '' @ replicate 19 (Block 0) @ str ''  0.00/h''"
proof -
  have "\<forall>m\<in>set keyMappings.
          case map_of [(''ytd_run_totals'', sample_totals 0 0)] (snd m) of
            None \<Rightarrow> True | Some t \<Rightarrow> distance t = Num (Fin 0)"
    by (simp add: keyMappings_def sample_totals_def)
  from zero_total_report [OF this, of sample_runtime None "[]"] show ?thesis
    by (simp add: zero_line_def formatDistance_zero padEnd_def padStart_def padding_def str_def
        numeral_eq_Suc)
qed

text \<open>
  C5. When a discipline's year-to-date key is missing from the stats payload, its entry
  is the zero entry (distance 0, pace 0) and the total distance is left as it was; the
  entries of the other disciplines and the total are those computed without the
  discipline; the line of the zero entry is rendered whatever the total is; and when
  the disciplines that are present have finite, non-negative distances, the
  per-discipline lines and the whole formatting pass return without an error.
\<close>

theorem missing_discipline_isolated:
  assumes "map_of data key = None"
  shows "extractEntry data td (activityType, key) = (zero_entry activityType, td) \<and>
         extractAll data td (before @ (activityType, key) # after) =
           (take (length before) (fst (extractAll data td (before @ after))) @
              zero_entry activityType #
              drop (length before) (fst (extractAll data td (before @ after))),
            snd (extractAll data td (before @ after))) \<and>
         formatEntry rt units td' (zero_entry activityType) = Inr (zero_line rt units activityType) \<and>
         ((\<forall>m\<in>set keyMappings.
             case map_of data (snd m) of None \<Rightarrow> True | Some t \<Rightarrow> plain_distance t) \<longrightarrow>
          (\<exists>lines. activityTypeLines rt units data = Inr lines \<and> length lines = 3) \<and>
          (\<exists>lines. allLines rt units data activities = Inr lines))"
proof (intro conjI impI)
  show "extractEntry data td (activityType, key) = (zero_entry activityType, td)"
    using assms by (rule extractEntry_missing)
  show "extractAll data td (before @ (activityType, key) # after) =
           (take (length before) (fst (extractAll data td (before @ after))) @
              zero_entry activityType #
              drop (length before) (fst (extractAll data td (before @ after))),
            snd (extractAll data td (before @ after)))"
    using assms by (rule extractAll_missing)
  show "formatEntry rt units td' (zero_entry activityType) = Inr (zero_line rt units activityType)"
    by (rule formatEntry_zero)
next
  assume p: "\<forall>m\<in>set keyMappings.
             case map_of data (snd m) of None \<Rightarrow> True | Some t \<Rightarrow> plain_distance t"
  from activityTypeLines_plain [OF p, of rt units]
  show "\<exists>lines. activityTypeLines rt units data = Inr lines \<and> length lines = 3" .
  then show "\<exists>lines. allLines rt units data activities = Inr lines"
    by (auto simp: allLines_def)
qed

theorem missing_discipline_isolated_witness:
  "map_of missing_stats ''ytd_swim_totals'' = None \<and>
   extractAll missing_stats (Fin 0) keyMappings =
     ([\<lparr>entry_name = ''Running'', entry_pace = Fin 6000, entry_distance = Num (Fin 1000)\<rparr>,
       zero_entry ''Swimming'',
       \<lparr>entry_name = ''Cycling'', entry_pace = Fin 12000, entry_distance = Num (Fin 3000)\<rparr>],
      Fin 4000) \<and>
   (\<exists>lines. activityTypeLines sample_runtime None missing_stats = Inr lines \<and> length lines = 3)"
proof -
  have m: "map_of missing_stats ''ytd_swim_totals'' = None"
    by (simp add: missing_stats_def)
  have p: "\<forall>m\<in>set keyMappings.
             case map_of missing_stats (snd m) of None \<Rightarrow> True | Some t \<Rightarrow> plain_distance t"
    by (simp add: keyMappings_def missing_stats_def sample_totals_def plain_distance_def)
  have k: "keyMappings =
     [(''Running'', ''ytd_run_totals'')] @ (''Swimming'', ''ytd_swim_totals'') #
     [(''Cycling'', ''ytd_ride_totals'')]"
    by (simp add: keyMappings_def)
  from missing_discipline_isolated [OF m, of "Fin 0" "''Swimming''"
      "[(''Running'', ''ytd_run_totals'')]" "[(''Cycling'', ''ytd_ride_totals'')]"
      sample_runtime None "Fin 0" "[]"] p m
  show ?thesis
    unfolding k by (simp add: extractEntry_def missing_stats_def sample_totals_def)
qed

text \<open>
  The claim C5 as stated also covers totals that are present but malformed. For
  totals without fields nothing is substituted: the Swimming entry keeps an undefined
  distance and a \<open>NaN\<close> pace, the total distance becomes \<open>NaN\<close>, and the Running
  line differs from the one computed without the Swimming key.
\<close>

theorem malformed_discipline_not_isolated:
  "extractAll malformed_stats (Fin 0) keyMappings =
     ([\<lparr>entry_name = ''Running'', entry_pace = Fin 6000, entry_distance = Num (Fin 1000)\<rparr>,
       \<lparr>entry_name = ''Swimming'', entry_pace = NaN, entry_distance = Undefined\<rparr>,
       \<lparr>entry_name = ''Cycling'', entry_pace = Fin 12000, entry_distance = Num (Fin 3000)\<rparr>],
      NaN) \<and>
   fst (extractAll malformed_stats (Fin 0) keyMappings) ! 1 \<noteq> zero_entry ''Swimming'' \<and>
   snd (extractAll malformed_stats (Fin 0) keyMappings) \<noteq>
     snd (extractAll missing_stats (Fin 0) keyMappings) \<and>
   activityTypeLines sample_runtime None malformed_stats \<noteq>
     activityTypeLines sample_runtime None missing_stats"
proof -
  have a: "extractAll malformed_stats (Fin 0) keyMappings =
     ([\<lparr>entry_name = ''Running'', entry_pace = Fin 6000, entry_distance = Num (Fin 1000)\<rparr>,
       \<lparr>entry_name = ''Swimming'', entry_pace = NaN, entry_distance = Undefined\<rparr>,
       \<lparr>entry_name = ''Cycling'', entry_pace = Fin 12000, entry_distance = Num (Fin 3000)\<rparr>],
      NaN)"
    by (simp add: keyMappings_def malformed_stats_def extractEntry_def sample_totals_def
        empty_totals_def)
  have b: "extractAll missing_stats (Fin 0) keyMappings =
     ([\<lparr>entry_name = ''Running'', entry_pace = Fin 6000, entry_distance = Num (Fin 1000)\<rparr>,
       zero_entry ''Swimming'',
       \<lparr>entry_name = ''Cycling'', entry_pace = Fin 12000, entry_distance = Num (Fin 3000)\<rparr>],
      Fin 4000)"
    by (simp add: keyMappings_def missing_stats_def extractEntry_def sample_totals_def
        zero_entry_def)
  have bar1: "generateBarChart NaN 19 = Inr (replicate 19 (Block 0))"
    by (rule generateBarChart_NaN_report)
  have "\<lfloor>dbl (dbl 3800 / 100)\<rfloor> = 38"
    by code_simp
  then have bar2: "generateBarChart (Fin 25) 19 =
      Inr (replicate 4 (Block 8) @ [Block 6] @ replicate 14 (Block 0))"
    using generateBarChart_Fin [OF report_width, of 25] by simp
  have "formatEntry sample_runtime None NaN
          \<lparr>entry_name = ''Running'', entry_pace = Fin 6000, entry_distance = Num (Fin 1000)\<rparr> \<noteq>
        formatEntry sample_runtime None (Fin 4000)
          \<lparr>entry_name = ''Running'', entry_pace = Fin 6000, entry_distance = Num (Fin 1000)\<rparr>"
    by (simp add: formatEntry_def Let_def bar1 bar2) (simp add: numeral_eq_Suc)
  moreover obtain r1 s1 c1
    where "formatEntry sample_runtime None NaN
             \<lparr>entry_name = ''Running'', entry_pace = Fin 6000, entry_distance = Num (Fin 1000)\<rparr> =
           Inr r1"
      and "formatEntry sample_runtime None NaN
             \<lparr>entry_name = ''Swimming'', entry_pace = NaN, entry_distance = Undefined\<rparr> = Inr s1"
      and "formatEntry sample_runtime None NaN
             \<lparr>entry_name = ''Cycling'', entry_pace = Fin 12000, entry_distance = Num (Fin 3000)\<rparr> =
           Inr c1"
    using formatEntry_NaN_total by metis
  moreover obtain r2 c2
    where "formatEntry sample_runtime None (Fin 4000)
             \<lparr>entry_name = ''Running'', entry_pace = Fin 6000, entry_distance = Num (Fin 1000)\<rparr> =
           Inr r2"
      and "formatEntry sample_runtime None (Fin 4000)
             \<lparr>entry_name = ''Cycling'', entry_pace = Fin 12000, entry_distance = Num (Fin 3000)\<rparr> =
           Inr c2"
    using formatEntry_plain [of _ _ 4000 sample_runtime None] by (metis entry.select_convs(3) zero_le_numeral)
  ultimately have c: "activityTypeLines sample_runtime None malformed_stats \<noteq>
     activityTypeLines sample_runtime None missing_stats"
    by (simp add: activityTypeLines_def a b formatEntry_zero)
  show ?thesis
    using a b c by (simp add: zero_entry_def)
qed

section \<open>Properties of the token routine\<close>

lemma getStravaToken_config:
  assumes "\<not> truthy_str (cache_get (loadCache ev (cacheFile w)) ''stravaRefreshToken'')"
  shows "getStravaToken ev sv w = (Inl ConfigError, w)"
  using assms by (auto simp: getStravaToken_def truthy_str_def Let_def split: option.splits)

lemma getStravaToken_refresh:
  assumes "truthy_str (cache_get (loadCache ev (cacheFile w)) ''stravaRefreshToken'')"
  shows "fst (getStravaToken ev sv w) \<noteq> Inl ConfigError \<and>
         (\<exists>r rest. trace (snd (getStravaToken ev sv w)) = trace w @ RefreshCall r # rest)"
  using assms
  by (auto simp: getStravaToken_def truthy_str_def emit_def Let_def split: option.splits)

text \<open>
  C8. \<open>getStravaToken\<close> raises the configuration error exactly when the cache, after
  the file has been laid over the environment's defaults, holds no non-empty refresh
  token. In that case the world is as before: no refresh call was made and the cache
  file was not written. In every other case the first thing it does is a refresh call.
\<close>

theorem getStravaToken_config_error:
  "(fst (getStravaToken ev sv w) = Inl ConfigError) =
     (\<not> truthy_str (cache_get (loadCache ev (cacheFile w)) ''stravaRefreshToken'')) \<and>
   (fst (getStravaToken ev sv w) = Inl ConfigError \<longrightarrow>
      snd (getStravaToken ev sv w) = w \<and>
      count_events is_refresh (trace (snd (getStravaToken ev sv w))) =
        count_events is_refresh (trace w) \<and>
      count_events is_cache_write (trace (snd (getStravaToken ev sv w))) =
        count_events is_cache_write (trace w) \<and>
      cacheFile (snd (getStravaToken ev sv w)) = cacheFile w) \<and>
   (fst (getStravaToken ev sv w) \<noteq> Inl ConfigError \<longrightarrow>
      (\<exists>r rest. trace (snd (getStravaToken ev sv w)) = trace w @ RefreshCall r # rest))"
proof (cases "truthy_str (cache_get (loadCache ev (cacheFile w)) ''stravaRefreshToken'')")
  case True
  from getStravaToken_refresh [OF this, of sv] True show ?thesis
    by simp
next
  case False
  from getStravaToken_config [OF this, of sv] False show ?thesis
    by simp
qed

theorem getStravaToken_config_error_witness:
  "getStravaToken (sample_env\<lparr>STRAVA_REFRESH_TOKEN := None\<rparr>) sample_services sample_world =
     (Inl ConfigError, sample_world) \<and>
   getStravaToken sample_env sample_services
     (sample_world\<lparr>cacheFile := Content [(''stravaRefreshToken'', Some '''')]\<rparr>) =
     (Inl ConfigError, sample_world\<lparr>cacheFile := Content [(''stravaRefreshToken'', Some '''')]\<rparr>) \<and>
   fst (getStravaToken (sample_env\<lparr>STRAVA_REFRESH_TOKEN := None\<rparr>) sample_services
     (sample_world\<lparr>cacheFile := Content [(''stravaRefreshToken'', Some ''r9'')]\<rparr>)) = Inr ''ar9''"
proof -
  have a: "\<not> truthy_str (cache_get
      (loadCache (sample_env\<lparr>STRAVA_REFRESH_TOKEN := None\<rparr>) (cacheFile sample_world))
      ''stravaRefreshToken'')"
    by (simp add: truthy_str_def cache_get_def loadCache_def sample_env_def sample_world_def)
  have b: "\<not> truthy_str (cache_get
      (loadCache sample_env
         (cacheFile (sample_world\<lparr>cacheFile := Content [(''stravaRefreshToken'', Some '''')]\<rparr>)))
      ''stravaRefreshToken'')"
    by (simp add: truthy_str_def cache_get_def loadCache_def sample_env_def sample_world_def)
  have c: "fst (getStravaToken (sample_env\<lparr>STRAVA_REFRESH_TOKEN := None\<rparr>) sample_services
     (sample_world\<lparr>cacheFile := Content [(''stravaRefreshToken'', Some ''r9'')]\<rparr>)) = Inr ''ar9''"
    by (simp add: getStravaToken_def cache_get_def loadCache_def sample_env_def sample_world_def
        sample_services_def emit_def count_events_def Let_def)
  from getStravaToken_config_error
         [of "sample_env\<lparr>STRAVA_REFRESH_TOKEN := None\<rparr>" sample_services sample_world]
       getStravaToken_config_error
         [of sample_env sample_services
            "sample_world\<lparr>cacheFile := Content [(''stravaRefreshToken'', Some '''')]\<rparr>"]
       a b c
  show ?thesis
    by (simp add: prod_eq_iff)
qed

section \<open>Properties of the run\<close>

lemma getStravaToken_success:
  assumes "getStravaToken ev sv w = (Inr token, w')"
  shows "\<exists>r c. trace w' = trace w @ [RefreshCall r, CacheWrite c]"
  using assms
  by (auto simp: getStravaToken_def emit_def Let_def split: option.splits if_splits)

lemma getStravaStats_success:
  assumes "getStravaStats ev sv w = (Inr json, w')"
  shows "\<exists>r c t. trace w' = trace w @ [RefreshCall r, CacheWrite c, StatsRead t]"
proof -
  from assms obtain token w1
    where t: "getStravaToken ev sv w = (Inr token, w1)" and w': "w' = emit (StatsRead token) w1"
    by (auto simp: getStravaStats_def split: prod.splits sum.splits option.splits)
  from getStravaToken_success [OF t] w' show ?thesis
    by (auto simp: emit_def)
qed

lemma getRecentActivities_success:
  assumes "getRecentActivities ev sv w = (Inr json, w')"
  shows "\<exists>r c t. trace w' = trace w @ [RefreshCall r, CacheWrite c, ActivitiesRead t]"
proof -
  from assms obtain token w1
    where t: "getStravaToken ev sv w = (Inr token, w1)" and w': "w' = emit (ActivitiesRead token) w1"
    by (auto simp: getRecentActivities_def split: prod.splits sum.splits option.splits)
  from getStravaToken_success [OF t] w' show ?thesis
    by (auto simp: emit_def)
qed

lemma updateGist_success:
  assumes "updateGist rt ev sv data activities w = (Inr u, w')"
  shows "\<exists>f c. trace w' = trace w @ [GistRead, FormatPass, GistWrite f c]"
  using assms
  by (auto simp: updateGist_def emit_def Let_def split: option.splits sum.splits if_splits)

lemma main_success:
  assumes "main rt ev sv w = (Inr u, w')"
  shows "\<exists>r1 c1 t1 r2 c2 t2 f c.
           trace w' = trace w @
             [RefreshCall r1, CacheWrite c1, StatsRead t1,
              RefreshCall r2, CacheWrite c2, ActivitiesRead t2,
              GistRead, FormatPass, GistWrite f c]"
proof -
  from assms obtain stats w1 activities w2
    where s: "getStravaStats ev sv w = (Inr stats, w1)"
      and a: "getRecentActivities ev sv w1 = (Inr activities, w2)"
      and g: "updateGist rt ev sv stats activities w2 = (Inr u, w')"
    by (auto simp: main_def split: prod.splits sum.splits)
  from getStravaStats_success [OF s] getRecentActivities_success [OF a] updateGist_success [OF g]
  show ?thesis
    by auto
qed

text \<open>
  C1. A run that completes performs two token refreshes, one before each of its two
  read requests, then one formatting pass and one write request, in this order:
  refresh, cache write, stats read, refresh, cache write, activities read, gist read,
  formatting pass, gist write.
\<close>

theorem main_refreshes_twice:
  assumes "main rt ev sv w = (Inr u, w')"
  shows "count_events is_refresh (trace w') = count_events is_refresh (trace w) + 2 \<and>
         count_events is_read (trace w') = count_events is_read (trace w) + 2 \<and>
         count_events is_format (trace w') = count_events is_format (trace w) + 1 \<and>
         count_events is_write (trace w') = count_events is_write (trace w) + 1 \<and>
         (\<exists>r1 c1 t1 r2 c2 t2 f c.
            trace w' = trace w @
              [RefreshCall r1, CacheWrite c1, StatsRead t1,
               RefreshCall r2, CacheWrite c2, ActivitiesRead t2,
               GistRead, FormatPass, GistWrite f c])"
  using main_success [OF assms] by (auto simp: count_events_def)

lemma sample_run:
  "\<exists>content.
     main sample_runtime sample_env sample_services sample_world =
       (Inr (),
        \<lparr>cacheFile = Content [(''stravaAccessToken'', Some ''arr0''), (''stravaRefreshToken'', Some ''rrr0'')],
         trace =
           [RefreshCall ''r0'',
            CacheWrite [(''stravaAccessToken'', Some ''ar0''), (''stravaRefreshToken'', Some ''rr0'')],
            StatsRead ''ar0'',
            RefreshCall ''rr0'',
            CacheWrite [(''stravaAccessToken'', Some ''arr0''), (''stravaRefreshToken'', Some ''rrr0'')],
            ActivitiesRead ''arr0'',
            GistRead, FormatPass, GistWrite ''strava.txt'' content]\<rparr>)"
proof -
  have "\<forall>m\<in>set keyMappings.
          case map_of missing_stats (snd m) of None \<Rightarrow> True | Some t \<Rightarrow> plain_distance t"
    by (simp add: keyMappings_def missing_stats_def sample_totals_def plain_distance_def)
  from activityTypeLines_plain [OF this, of sample_runtime None]
  obtain lines where "allLines sample_runtime None missing_stats
      [sample_activity 5000 1500 1767312000000] = Inr lines"
    by (auto simp: allLines_def)
  then show ?thesis
    by (simp add: main_def getStravaStats_def getRecentActivities_def getStravaToken_def
        updateGist_def cache_get_def loadCache_def sample_env_def sample_world_def
        sample_services_def emit_def count_events_def Let_def)
qed

theorem main_refreshes_twice_witness:
  "fst (main sample_runtime sample_env sample_services sample_world) = Inr () \<and>
   count_events is_refresh
     (trace (snd (main sample_runtime sample_env sample_services sample_world))) = 2 \<and>
   count_events is_read
     (trace (snd (main sample_runtime sample_env sample_services sample_world))) = 2 \<and>
   count_events is_format
     (trace (snd (main sample_runtime sample_env sample_services sample_world))) = 1 \<and>
   count_events is_write
     (trace (snd (main sample_runtime sample_env sample_services sample_world))) = 1"
proof -
  from sample_run have ok: "fst (main sample_runtime sample_env sample_services sample_world) = Inr ()"
    by auto
  then have "main sample_runtime sample_env sample_services sample_world =
      (Inr (), snd (main sample_runtime sample_env sample_services sample_world))"
    by (simp add: prod_eq_iff)
  from main_refreshes_twice [OF this] ok show ?thesis
    by (simp add: sample_world_def count_events_def)
qed

text \<open>
  The claim C1 as stated, one token refresh in a run, fails: the run above completes
  and calls the OAuth endpoint twice, the second time with the token the first call
  rotated in.
\<close>

theorem main_refresh_not_once:
  "fst (main sample_runtime sample_env sample_services sample_world) = Inr () \<and>
   filter is_refresh (trace (snd (main sample_runtime sample_env sample_services sample_world))) =
     [RefreshCall ''r0'', RefreshCall ''rr0''] \<and>
   count_events is_refresh
     (trace (snd (main sample_runtime sample_env sample_services sample_world))) \<noteq> 1"
  using sample_run by (auto simp: count_events_def)

section \<open>Properties of the formatted distance\<close>






























end
